theory Spec2Isabelle
  imports Complex_Main "HOL-Library.Word"
begin

section \<open>ROSAirSim: the bridge from AirSim sensor samples to ROS topics\<close>

text \<open>
  A shallow embedding of \<^verbatim>\<open>src/plugins/autonomy/ROSAirSim/ROSAirSim.cpp\<close>.
  Conventions of the model:
  \<^item> Eigen's \<^verbatim>\<open>float\<close> and ROS's \<^verbatim>\<open>double\<close> scalars are real numbers: rounding is not
    modelled, and \<^verbatim>\<open>M_PI\<close> is \<open>pi\<close>.  Where Eigen would divide by zero (a degenerate
    matrix handed to the matrix-to-quaternion conversion) HOL's division returns 0; no
    result below depends on that case.
  \<^item> The floats of a lidar point cloud are never computed with, only copied as bytes:
    each is its IEEE-754 bit pattern, a 32-bit word.
  \<^item> Every call into ROS, tf2, image_transport, OpenCV and the mutex is an event; a
    routine returns the new plugin state and the list of events in program order.
  \<^item> Time stamps (\<^verbatim>\<open>ros::Time::now()\<close>) are left out of the message headers.
\<close>

subsection \<open>Eigen: vectors, quaternions, isometries\<close>

record Vector3f =
  vx :: real
  vy :: real
  vz :: real

record Quaternionf =
  qw :: real
  qx :: real
  qy :: real
  qz :: real

record Matrix3f =
  m00 :: real
  m01 :: real
  m02 :: real
  m10 :: real
  m11 :: real
  m12 :: real
  m20 :: real
  m21 :: real
  m22 :: real

record Isometry3f =
  iso_linear :: Matrix3f
  iso_translation :: Vector3f

definition UnitX :: Vector3f where
  "UnitX = \<lparr>vx = 1, vy = 0, vz = 0\<rparr>"

definition UnitZ :: Vector3f where
  "UnitZ = \<lparr>vx = 0, vy = 0, vz = 1\<rparr>"

text \<open>\<^verbatim>\<open>Quaternion::operator=(const AngleAxis&)\<close>: half angle, cosine in w, sine times axis.\<close>

definition quat_of_AngleAxis :: "real \<Rightarrow> Vector3f \<Rightarrow> Quaternionf" where
  "quat_of_AngleAxis angle axis =
     (let ha = 0.5 * angle
      in \<lparr>qw = cos ha, qx = sin ha * vx axis, qy = sin ha * vy axis, qz = sin ha * vz axis\<rparr>)"

text \<open>\<^verbatim>\<open>Quaternion * Quaternion\<close>: the Hamilton product, as Eigen writes it.\<close>

definition quat_mul :: "Quaternionf \<Rightarrow> Quaternionf \<Rightarrow> Quaternionf" where
  "quat_mul a b =
     \<lparr>qw = qw a * qw b - qx a * qx b - qy a * qy b - qz a * qz b,
      qx = qw a * qx b + qx a * qw b + qy a * qz b - qz a * qy b,
      qy = qw a * qy b + qy a * qw b + qz a * qx b - qx a * qz b,
      qz = qw a * qz b + qz a * qw b + qx a * qy b - qy a * qx b\<rparr>"

text \<open>\<^verbatim>\<open>AngleAxis * Quaternion\<close> converts the angle-axis to a quaternion and multiplies.\<close>

definition AngleAxis_times :: "real \<Rightarrow> Vector3f \<Rightarrow> Quaternionf \<Rightarrow> Quaternionf" where
  "AngleAxis_times angle axis q = quat_mul (quat_of_AngleAxis angle axis) q"

definition toRotationMatrix :: "Quaternionf \<Rightarrow> Matrix3f" where
  "toRotationMatrix q =
     (let tx = 2 * qx q; ty = 2 * qy q; tz = 2 * qz q;
          twx = tx * qw q; twy = ty * qw q; twz = tz * qw q;
          txx = tx * qx q; txy = ty * qx q; txz = tz * qx q;
          tyy = ty * qy q; tyz = tz * qy q; tzz = tz * qz q
      in \<lparr>m00 = 1 - (tyy + tzz), m01 = txy - twz, m02 = txz + twy,
          m10 = txy + twz, m11 = 1 - (txx + tzz), m12 = tyz - twx,
          m20 = txz - twy, m21 = tyz + twx, m22 = 1 - (txx + tyy)\<rparr>)"

text \<open>\<^verbatim>\<open>Translation3f * Quaternionf\<close>: the isometry that rotates, then translates.\<close>

definition Translation_times :: "Vector3f \<Rightarrow> Quaternionf \<Rightarrow> Isometry3f" where
  "Translation_times v q = \<lparr>iso_linear = toRotationMatrix q, iso_translation = v\<rparr>"

definition transpose3 :: "Matrix3f \<Rightarrow> Matrix3f" where
  "transpose3 m =
     \<lparr>m00 = m00 m, m01 = m10 m, m02 = m20 m,
      m10 = m01 m, m11 = m11 m, m12 = m21 m,
      m20 = m02 m, m21 = m12 m, m22 = m22 m\<rparr>"

definition mat_mul :: "Matrix3f \<Rightarrow> Matrix3f \<Rightarrow> Matrix3f" where
  "mat_mul a b =
     \<lparr>m00 = m00 a * m00 b + m01 a * m10 b + m02 a * m20 b,
      m01 = m00 a * m01 b + m01 a * m11 b + m02 a * m21 b,
      m02 = m00 a * m02 b + m01 a * m12 b + m02 a * m22 b,
      m10 = m10 a * m00 b + m11 a * m10 b + m12 a * m20 b,
      m11 = m10 a * m01 b + m11 a * m11 b + m12 a * m21 b,
      m12 = m10 a * m02 b + m11 a * m12 b + m12 a * m22 b,
      m20 = m20 a * m00 b + m21 a * m10 b + m22 a * m20 b,
      m21 = m20 a * m01 b + m21 a * m11 b + m22 a * m21 b,
      m22 = m20 a * m02 b + m21 a * m12 b + m22 a * m22 b\<rparr>"

definition mat_vec :: "Matrix3f \<Rightarrow> Vector3f \<Rightarrow> Vector3f" where
  "mat_vec a v =
     \<lparr>vx = m00 a * vx v + m01 a * vy v + m02 a * vz v,
      vy = m10 a * vx v + m11 a * vy v + m12 a * vz v,
      vz = m20 a * vx v + m21 a * vy v + m22 a * vz v\<rparr>"

text \<open>\<^verbatim>\<open>Isometry3f::inverse()\<close>: transposed rotation, and minus that times the translation.\<close>

definition iso_inverse :: "Isometry3f \<Rightarrow> Isometry3f" where
  "iso_inverse t =
     (let r = transpose3 (iso_linear t); p = mat_vec r (iso_translation t)
      in \<lparr>iso_linear = r, iso_translation = \<lparr>vx = - vx p, vy = - vy p, vz = - vz p\<rparr>\<rparr>)"

definition iso_mul :: "Isometry3f \<Rightarrow> Isometry3f \<Rightarrow> Isometry3f" where
  "iso_mul a b =
     (let p = mat_vec (iso_linear a) (iso_translation b)
      in \<lparr>iso_linear = mat_mul (iso_linear a) (iso_linear b),
          iso_translation = \<lparr>vx = vx p + vx (iso_translation a),
                             vy = vy p + vy (iso_translation a),
                             vz = vz p + vz (iso_translation a)\<rparr>\<rparr>)"

text \<open>
  \<^verbatim>\<open>Quaternionf(const Matrix3f&)\<close>: Eigen's conversion, by the sign of the trace and then
  the largest diagonal entry.
\<close>

definition quat_of_matrix :: "Matrix3f \<Rightarrow> Quaternionf" where
  "quat_of_matrix m =
     (let t = m00 m + m11 m + m22 m
      in if t > 0 then
           (let t = sqrt (t + 1); w = 0.5 * t; t = 0.5 / t
            in \<lparr>qw = w, qx = (m21 m - m12 m) * t, qy = (m02 m - m20 m) * t,
                qz = (m10 m - m01 m) * t\<rparr>)
         else
           (let i = (0::nat);
                i = (if m11 m > m00 m then 1 else i);
                i = (if m22 m > (if i = 0 then m00 m else m11 m) then 2 else i)
            in if i = 0 then
                 (let t = sqrt (m00 m - m11 m - m22 m + 1); c = 0.5 * t; t = 0.5 / t
                  in \<lparr>qw = (m21 m - m12 m) * t, qx = c, qy = (m10 m + m01 m) * t,
                      qz = (m20 m + m02 m) * t\<rparr>)
               else if i = 1 then
                 (let t = sqrt (m11 m - m22 m - m00 m + 1); c = 0.5 * t; t = 0.5 / t
                  in \<lparr>qw = (m02 m - m20 m) * t, qx = (m01 m + m10 m) * t, qy = c,
                      qz = (m21 m + m12 m) * t\<rparr>)
               else
                 (let t = sqrt (m22 m - m00 m - m11 m + 1); c = 0.5 * t; t = 0.5 / t
                  in \<lparr>qw = (m10 m - m01 m) * t, qx = (m02 m + m20 m) * t,
                      qy = (m12 m + m21 m) * t, qz = c\<rparr>)))"

subsection \<open>The simulator's samples (AirSimSensor)\<close>

type_synonym float32 = "32 word"
type_synonym Mat = "8 word list"

record Pose =
  position :: Vector3f
  orientation :: Quaternionf

record CameraConfig =
  cam_name :: string
  img_type_name :: string
  pixels_as_float :: bool

record AirSimImageType =
  vehicle_name :: string
  camera_config :: CameraConfig
  img :: Mat
  vehicle_pose_world_NED :: Pose
  camera_pose_world_NED :: Pose

record LidarData =
  point_cloud :: "float32 list"

record AirSimLidarType =
  lidar_data :: LidarData
  lidar_vehicle_pose_world_NED :: Pose
  lidar_pose_world_NED :: Pose

subsection \<open>The middleware's messages\<close>

record Transform =
  translation :: Vector3f
  rotation :: Quaternionf

record TransformStamped =
  frame_id :: string
  child_frame_id :: string
  transform :: Transform

record ImageMsg =
  img_frame_id :: string
  encoding :: string
  img_data :: Mat

record PointField =
  pf_name :: string
  pf_offset :: "32 word"
  pf_datatype :: "8 word"
  pf_count :: "32 word"

record PointCloud2 =
  pc_frame_id :: string
  height :: "32 word"
  width :: "32 word"
  pc_fields :: "PointField list"
  is_bigendian :: bool
  point_step :: "32 word"
  row_step :: "32 word"
  data :: "8 word list"
  is_dense :: bool

text \<open>\<^verbatim>\<open>cv_bridge::CvImage(header, encoding, img).toImageMsg()\<close>.\<close>

definition toImageMsg :: "string \<Rightarrow> string \<Rightarrow> Mat \<Rightarrow> ImageMsg" where
  "toImageMsg header_frame_id enc m = \<lparr>img_frame_id = header_frame_id, encoding = enc, img_data = m\<rparr>"

text \<open>A default-constructed \<^verbatim>\<open>sensor_msgs::PointField\<close> and \<^verbatim>\<open>sensor_msgs::PointCloud2\<close>.\<close>

definition PointField_default :: PointField where
  "PointField_default = \<lparr>pf_name = [], pf_offset = 0, pf_datatype = 0, pf_count = 0\<rparr>"

definition PointCloud2_default :: PointCloud2 where
  "PointCloud2_default =
     \<lparr>pc_frame_id = [], height = 0, width = 0, pc_fields = [], is_bigendian = False,
      point_step = 0, row_step = 0, data = [], is_dense = False\<rparr>"

text \<open>\<^verbatim>\<open>sensor_msgs::PointField::FLOAT32\<close>.\<close>

definition FLOAT32 :: "8 word" where
  "FLOAT32 = 7"

subsection \<open>Strings\<close>

text \<open>\<^verbatim>\<open>boost::algorithm::to_lower_copy\<close> in the classic locale: A to Z become a to z.\<close>

definition to_lower_char :: "char \<Rightarrow> char" where
  "to_lower_char c =
     (let n = (of_char c :: nat) in if 65 \<le> n \<and> n \<le> 90 then char_of (n + 32) else c)"

definition to_lower_copy :: "string \<Rightarrow> string" where
  "to_lower_copy str = map to_lower_char str"

text \<open>\<^verbatim>\<open>std::to_string(int)\<close>: decimal digits, a minus sign first for a negative number.\<close>

fun digits :: "nat \<Rightarrow> string" where
  "digits n =
     (if n < 10 then [char_of (48 + n)] else digits (n div 10) @ [char_of (48 + n mod 10)])"

definition to_string :: "int \<Rightarrow> string" where
  "to_string i = (if i < 0 then CHR ''-'' # digits (nat (- i)) else digits (nat i))"

subsection \<open>The plugin object and what it does to the outside\<close>

text \<open>The parent entity: its id, and the position and quaternion of its truth state.\<close>

record Entity =
  entity_id :: int
  state_pos :: Vector3f
  state_quat :: Quaternionf

text \<open>
  The members of \<^verbatim>\<open>ROSAirSim\<close>; the trailing underscore of a member's name is
  written as a prime.  A publisher is the topic it was advertised on
  (\<^verbatim>\<open>getTopic()\<close> returns it); the node handles and the broadcaster carry no state.
\<close>

record ROSAirSim =
  show_camera_images' :: bool
  pub_image_data' :: bool
  pub_lidar_data' :: bool
  ros_name' :: string
  ros_namespace' :: string
  base_scan_pub' :: string
  world_trans' :: TransformStamped
  lidar_data' :: AirSimLidarType
  image_data' :: "AirSimImageType list"
  img_publishers' :: "string list"
  camera_names' :: "string list"
  img_topic_published' :: bool

datatype event =
    Cout string
  | RosInit
  | Advertise string
  | AdvertiseImage string
  | Subscribe string string
  | SpinOnce
  | Lock
  | Unlock
  | ReadFlag bool
  | WriteFlag bool
  | PublishImage string ImageMsg
  | PublishCloud string PointCloud2
  | SendTransform "TransformStamped list"
  | ImShow string Mat
  | ImShowScaled string Mat
  | WaitKey

subsection \<open>The lidar callback (lines 113 to 118)\<close>

definition airsim_lidar_cb :: "ROSAirSim \<Rightarrow> AirSimLidarType \<Rightarrow> ROSAirSim \<times> event list" where
  "airsim_lidar_cb s msg =
     (if length (point_cloud (lidar_data msg)) < 3 then (s, [])
      else (s\<lparr>lidar_data' := msg\<rparr>, []))"

subsection \<open>The image callback (lines 121 to 255)\<close>

text \<open>Lines 169 to 184: the vehicle pose, from NED to ENU.\<close>

definition cb_vehicle_pose_ENU :: "AirSimImageType \<Rightarrow> Pose" where
  "cb_vehicle_pose_ENU a =
     (let vehicle_position_ENU =
            \<lparr>vx = vy (position (vehicle_pose_world_NED a)),
             vy = vx (position (vehicle_pose_world_NED a)),
             vz = -1 * vz (position (vehicle_pose_world_NED a))\<rparr>;
          NED_quat = orientation (vehicle_pose_world_NED a);
          xTo = -180 * (pi / 180);
          zTo = 90 * (pi / 180);
          vehicle_orientation_ENU = AngleAxis_times xTo UnitX NED_quat;
          vehicle_orientation_ENU = AngleAxis_times zTo UnitZ vehicle_orientation_ENU
      in \<lparr>position = vehicle_position_ENU, orientation = vehicle_orientation_ENU\<rparr>)"

definition cb_tf_world_vehicle_ENU :: "AirSimImageType \<Rightarrow> Isometry3f" where
  "cb_tf_world_vehicle_ENU a =
     (let translation_trans_vehicle = position (cb_vehicle_pose_ENU a);
          rotation_quat_vehicle = orientation (cb_vehicle_pose_ENU a)
      in Translation_times translation_trans_vehicle rotation_quat_vehicle)"

text \<open>Lines 189 to 204: the camera pose, from NED to ENU.\<close>

definition cb_camera_pose_world_ENU :: "AirSimImageType \<Rightarrow> Pose" where
  "cb_camera_pose_world_ENU a =
     (let camera_position_world_ENU =
            \<lparr>vx = vy (position (camera_pose_world_NED a)),
             vy = vx (position (camera_pose_world_NED a)),
             vz = -1 * vz (position (camera_pose_world_NED a))\<rparr>;
          NED_quat_camera = orientation (camera_pose_world_NED a);
          xTo = -180 * (pi / 180);
          zTo = 90 * (pi / 180);
          camera_orientation_world_ENU = AngleAxis_times xTo UnitX NED_quat_camera;
          camera_orientation_world_ENU = AngleAxis_times zTo UnitZ camera_orientation_world_ENU
      in \<lparr>position = camera_position_world_ENU, orientation = camera_orientation_world_ENU\<rparr>)"

definition cb_tf_world_camera_ENU :: "AirSimImageType \<Rightarrow> Isometry3f" where
  "cb_tf_world_camera_ENU a =
     (let translation_trans_camera = position (cb_camera_pose_world_ENU a);
          rotation_quat_camera = orientation (cb_camera_pose_world_ENU a)
      in Translation_times translation_trans_camera rotation_quat_camera)"

text \<open>Lines 207 to 227: the camera in the vehicle frame, as a transform message.\<close>

definition cb_image_trans :: "string \<Rightarrow> string \<Rightarrow> AirSimImageType \<Rightarrow> TransformStamped" where
  "cb_image_trans ns camera_name a =
     (let tf_vehicle_camera_ENU =
            iso_mul (iso_inverse (cb_tf_world_vehicle_ENU a)) (cb_tf_world_camera_ENU a);
          tf_vehicle_camera_ENU_rotation = quat_of_matrix (iso_linear tf_vehicle_camera_ENU)
      in \<lparr>frame_id = ns @ ''/base_link'',
          child_frame_id = ns @ ''/'' @ camera_name @ ''/pose'',
          transform = \<lparr>translation = iso_translation tf_vehicle_camera_ENU,
                       rotation = tf_vehicle_camera_ENU_rotation\<rparr>\<rparr>)"

text \<open>Lines 233 to 243: the world transform, from the vehicle pose of the image.\<close>

definition cb_world_trans :: "ROSAirSim \<Rightarrow> AirSimImageType \<Rightarrow> TransformStamped" where
  "cb_world_trans s a =
     (let tf_world_vehicle_ENU = cb_tf_world_vehicle_ENU a;
          tf_vehicle_pose_rotation = quat_of_matrix (iso_linear tf_world_vehicle_ENU)
      in (world_trans' s)
           \<lparr>frame_id := ''world'',
            child_frame_id := ros_namespace' s @ ''/base_link'',
            transform := \<lparr>translation = iso_translation tf_world_vehicle_ENU,
                          rotation = tf_vehicle_pose_rotation\<rparr>\<rparr>)"

text \<open>Lines 134 to 248: the body of the loop over the images of the message.\<close>

definition cb_image_body :: "ROSAirSim \<Rightarrow> AirSimImageType \<Rightarrow> ROSAirSim \<times> event list" where
  "cb_image_body s a =
     (let camera_name = to_lower_copy (cam_name (camera_config a));
          image_type_name = to_lower_copy (img_type_name (camera_config a));
          topic_name = ''/'' @ ros_namespace' s @ ''/'' @ camera_name @ ''/'' @ image_type_name;
          s = s\<lparr>img_publishers' := img_publishers' s @ [topic_name]\<rparr>;
          header_frame_id = ros_namespace' s @ ''/'' @ camera_name @ ''/images'';
          img_msg = (if pixels_as_float (camera_config a)
                     then toImageMsg header_frame_id [] (img a)
                     else toImageMsg header_frame_id ''rgb8'' (img a));
          ev = [AdvertiseImage topic_name, PublishImage (last (img_publishers' s)) img_msg];
          old_cam_name = (camera_name \<in> set (camera_names' s))
      in if \<not> old_cam_name then
           (let s = s\<lparr>camera_names' := camera_names' s @ [camera_name]\<rparr>;
                image_trans' = cb_image_trans (ros_namespace' s) camera_name a;
                tf_msg_vec' = [image_trans']
            in if \<not> pub_lidar_data' s then
                 (let s = s\<lparr>world_trans' := cb_world_trans s a\<rparr>;
                      tf_msg_vec' = tf_msg_vec' @ [world_trans' s]
                  in (s, ev @ [SendTransform tf_msg_vec']))
               else (s, ev @ [SendTransform tf_msg_vec']))
         else (s, ev))"

fun cb_image_loop :: "ROSAirSim \<Rightarrow> AirSimImageType list \<Rightarrow> ROSAirSim \<times> event list" where
  "cb_image_loop s [] = (s, [])"
| "cb_image_loop s (a # as) =
     (let (s1, ev1) = cb_image_body s a;
          (s2, ev2) = cb_image_loop s1 as
      in (s2, ev1 @ ev2))"

definition airsim_image_cb :: "ROSAirSim \<Rightarrow> AirSimImageType list \<Rightarrow> ROSAirSim \<times> event list" where
  "airsim_image_cb s msg =
     (let s = s\<lparr>image_data' := msg\<rparr>
      in if length (image_data' s) = 0 then (s, [])
         else
           (let img_topic_published = img_topic_published' s;
                ev = [Lock, ReadFlag img_topic_published, Unlock]
            in if \<not> img_topic_published then
                 (let (s, ev_loop) = cb_image_loop s (image_data' s);
                      s = s\<lparr>img_topic_published' := True\<rparr>
                  in (s, ev @ ev_loop @ [Lock, WriteFlag True, Unlock]))
               else (s, ev)))"

subsection \<open>The per-tick routine (lines 265 to 530)\<close>

text \<open>Lines 290 to 302: the loop over the publishers, left at the first matching topic.\<close>

fun step_publish_loop :: "string list \<Rightarrow> string \<Rightarrow> string \<Rightarrow> AirSimImageType \<Rightarrow> event list" where
  "step_publish_loop [] topic_name_match header_frame_id a = []"
| "step_publish_loop (pub # pubs) topic_name_match header_frame_id a =
     (if pub = topic_name_match then
        (let img_msg = (if pixels_as_float (camera_config a)
                        then toImageMsg header_frame_id [] (img a)
                        else toImageMsg header_frame_id ''rgb8'' (img a))
         in [PublishImage pub img_msg])
      else step_publish_loop pubs topic_name_match header_frame_id a)"

text \<open>Lines 278 to 319: the body of the loop over the buffered images.\<close>

definition step_image_body :: "ROSAirSim \<Rightarrow> AirSimImageType \<Rightarrow> event list" where
  "step_image_body s a =
     (let camera_name = to_lower_copy (cam_name (camera_config a));
          image_type_name = to_lower_copy (img_type_name (camera_config a));
          topic_name_match =
            ''/'' @ ros_namespace' s @ ''/'' @ camera_name @ ''/'' @ image_type_name;
          header_frame_id = ros_namespace' s @ ''/'' @ camera_name @ ''/images'';
          ev = step_publish_loop (img_publishers' s) topic_name_match header_frame_id a
      in if show_camera_images' s then
           (let window_name = vehicle_name a @ ''_'' @ cam_name (camera_config a) @ ''_''
                                @ img_type_name (camera_config a)
            in if pixels_as_float (camera_config a)
               then ev @ [ImShowScaled window_name (img a), WaitKey]
               else ev @ [ImShow window_name (img a), WaitKey])
         else ev)"

text \<open>Lines 330 to 345: the vehicle pose of a buffered image, from NED to ENU.\<close>

definition step_vehicle_pose_ENU :: "AirSimImageType \<Rightarrow> Pose" where
  "step_vehicle_pose_ENU a =
     (let vehicle_position_ENU =
            \<lparr>vx = vy (position (vehicle_pose_world_NED a)),
             vy = vx (position (vehicle_pose_world_NED a)),
             vz = -1 * vz (position (vehicle_pose_world_NED a))\<rparr>;
          NED_quat = orientation (vehicle_pose_world_NED a);
          xTo = -180 * (pi / 180);
          zTo = 90 * (pi / 180);
          vehicle_orientation_ENU = AngleAxis_times xTo UnitX NED_quat;
          vehicle_orientation_ENU = AngleAxis_times zTo UnitZ vehicle_orientation_ENU
      in \<lparr>position = vehicle_position_ENU, orientation = vehicle_orientation_ENU\<rparr>)"

definition step_tf_world_vehicle_ENU :: "AirSimImageType \<Rightarrow> Isometry3f" where
  "step_tf_world_vehicle_ENU a =
     (let translation_trans_vehicle = position (step_vehicle_pose_ENU a);
          rotation_quat_vehicle = orientation (step_vehicle_pose_ENU a)
      in Translation_times translation_trans_vehicle rotation_quat_vehicle)"

text \<open>Lines 350 to 365: the camera pose of a buffered image, from NED to ENU.\<close>

definition step_camera_pose_world_ENU :: "AirSimImageType \<Rightarrow> Pose" where
  "step_camera_pose_world_ENU a =
     (let camera_position_world_ENU =
            \<lparr>vx = vy (position (camera_pose_world_NED a)),
             vy = vx (position (camera_pose_world_NED a)),
             vz = -1 * vz (position (camera_pose_world_NED a))\<rparr>;
          NED_quat_camera = orientation (camera_pose_world_NED a);
          xTo = -180 * (pi / 180);
          zTo = 90 * (pi / 180);
          camera_orientation_world_ENU = AngleAxis_times xTo UnitX NED_quat_camera;
          camera_orientation_world_ENU = AngleAxis_times zTo UnitZ camera_orientation_world_ENU
      in \<lparr>position = camera_position_world_ENU, orientation = camera_orientation_world_ENU\<rparr>)"

definition step_tf_world_camera_ENU :: "AirSimImageType \<Rightarrow> Isometry3f" where
  "step_tf_world_camera_ENU a =
     (let translation_trans_camera = position (step_camera_pose_world_ENU a);
          rotation_quat_camera = orientation (step_camera_pose_world_ENU a)
      in Translation_times translation_trans_camera rotation_quat_camera)"

text \<open>Lines 368 to 388: the camera in the vehicle frame, as a transform message.\<close>

definition step_image_trans :: "string \<Rightarrow> string \<Rightarrow> AirSimImageType \<Rightarrow> TransformStamped" where
  "step_image_trans ns cam_name1 a =
     (let tf_vehicle_camera_ENU =
            iso_mul (iso_inverse (step_tf_world_vehicle_ENU a)) (step_tf_world_camera_ENU a);
          tf_vehicle_camera_ENU_rotation = quat_of_matrix (iso_linear tf_vehicle_camera_ENU)
      in \<lparr>frame_id = ns @ ''/base_link'',
          child_frame_id = ns @ ''/'' @ cam_name1 @ ''/pose'',
          transform = \<lparr>translation = iso_translation tf_vehicle_camera_ENU,
                       rotation = tf_vehicle_camera_ENU_rotation\<rparr>\<rparr>)"

text \<open>Lines 394 to 404: the world transform, from the vehicle pose of a buffered image.\<close>

definition step_world_trans :: "ROSAirSim \<Rightarrow> AirSimImageType \<Rightarrow> TransformStamped" where
  "step_world_trans s a =
     (let tf_world_vehicle_ENU = step_tf_world_vehicle_ENU a;
          tf_vehicle_pose_rotation = quat_of_matrix (iso_linear tf_world_vehicle_ENU)
      in (world_trans' s)
           \<lparr>frame_id := ''world'',
            child_frame_id := ros_namespace' s @ ''/base_link'',
            transform := \<lparr>translation = iso_translation tf_world_vehicle_ENU,
                          rotation = tf_vehicle_pose_rotation\<rparr>\<rparr>)"

text \<open>
  Lines 325 to 409: for one camera name, the loop over the buffered images, left at the
  first image whose camera name (as received, not lower-cased) equals it.
\<close>

fun step_camera_find ::
  "ROSAirSim \<Rightarrow> string \<Rightarrow> AirSimImageType list \<Rightarrow> ROSAirSim \<times> TransformStamped list" where
  "step_camera_find s cam_name1 [] = (s, [])"
| "step_camera_find s cam_name1 (a # as) =
     (if cam_name (camera_config a) = cam_name1 then
        (let image_trans' = step_image_trans (ros_namespace' s) cam_name1 a
         in if \<not> pub_lidar_data' s then
              (let s = s\<lparr>world_trans' := step_world_trans s a\<rparr>
               in (s, [image_trans', world_trans' s]))
            else (s, [image_trans']))
      else step_camera_find s cam_name1 as)"

text \<open>Lines 324 to 410: the loop over the recorded camera names.\<close>

fun step_camera_loop :: "ROSAirSim \<Rightarrow> string list \<Rightarrow> ROSAirSim \<times> TransformStamped list" where
  "step_camera_loop s [] = (s, [])"
| "step_camera_loop s (cam_name1 # rest) =
     (let (s1, tf1) = step_camera_find s cam_name1 (image_data' s);
          (s2, tf2) = step_camera_loop s1 rest
      in (s2, tf1 @ tf2))"

text \<open>Lines 429 to 433: the loop over the fields, four bytes further each time.\<close>

fun fill_fields :: "PointField list \<Rightarrow> int \<Rightarrow> PointField list \<times> int" where
  "fill_fields [] offset = ([], offset)"
| "fill_fields (f # fs) offset =
     (let f = f\<lparr>pf_offset := word_of_int offset, pf_datatype := FLOAT32, pf_count := 1\<rparr>;
          (fs, offset_end) = fill_fields fs (offset + 4)
      in (f # fs, offset_end))"

text \<open>
  The four bytes of a float in memory, lowest first: the host is little-endian, as the
  message says of itself (\<^verbatim>\<open>is_bigendian = false\<close>).
\<close>

definition float_bytes :: "float32 \<Rightarrow> 8 word list" where
  "float_bytes w = [ucast w, ucast (drop_bit 8 w), ucast (drop_bit 16 w), ucast (drop_bit 24 w)]"

text \<open>
  Lines 416 to 445: the point cloud message.  \<^verbatim>\<open>size()\<close> is a natural number; its third
  is converted to the 32 bits of \<^verbatim>\<open>width\<close>, and \<^verbatim>\<open>row_step\<close> is a 32-bit product.
\<close>

definition step_lidar_msg :: "ROSAirSim \<Rightarrow> PointCloud2" where
  "step_lidar_msg s =
     (let lidar_msg = PointCloud2_default\<lparr>pc_frame_id := ros_namespace' s @ ''/base_laser''\<rparr>
      in if length (point_cloud (lidar_data (lidar_data' s))) > 3 then
           (let lidar_msg = lidar_msg\<lparr>height := 1\<rparr>;
                lidar_msg = lidar_msg
                  \<lparr>width := word_of_nat (length (point_cloud (lidar_data (lidar_data' s))) div 3)\<rparr>;
                fs = replicate 3 PointField_default;
                fs = fs[0 := (fs ! 0)\<lparr>pf_name := ''x''\<rparr>];
                fs = fs[1 := (fs ! 1)\<lparr>pf_name := ''y''\<rparr>];
                fs = fs[2 := (fs ! 2)\<lparr>pf_name := ''z''\<rparr>];
                (fs, offset) = fill_fields fs 0;
                lidar_msg = lidar_msg\<lparr>pc_fields := fs\<rparr>;
                lidar_msg = lidar_msg\<lparr>is_bigendian := False\<rparr>;
                lidar_msg = lidar_msg\<lparr>point_step := word_of_int offset\<rparr>;
                lidar_msg = lidar_msg\<lparr>row_step := point_step lidar_msg * width lidar_msg\<rparr>;
                lidar_msg = lidar_msg\<lparr>is_dense := True\<rparr>;
                data_std = point_cloud (lidar_data (lidar_data' s))
            in lidar_msg\<lparr>data := concat (map float_bytes data_std)\<rparr>)
         else lidar_msg)"

text \<open>Lines 452 to 467: the vehicle pose of the buffered lidar sample, from NED to ENU.\<close>

definition lidar_vehicle_pose_ENU :: "AirSimLidarType \<Rightarrow> Pose" where
  "lidar_vehicle_pose_ENU l =
     (let vehicle_position_ENU =
            \<lparr>vx = vy (position (lidar_vehicle_pose_world_NED l)),
             vy = vx (position (lidar_vehicle_pose_world_NED l)),
             vz = -1 * vz (position (lidar_vehicle_pose_world_NED l))\<rparr>;
          NED_quat = orientation (lidar_vehicle_pose_world_NED l);
          xTo = -180 * (pi / 180);
          zTo = 90 * (pi / 180);
          vehicle_orientation_ENU = AngleAxis_times xTo UnitX NED_quat;
          vehicle_orientation_ENU = AngleAxis_times zTo UnitZ vehicle_orientation_ENU
      in \<lparr>position = vehicle_position_ENU, orientation = vehicle_orientation_ENU\<rparr>)"

definition lidar_tf_world_vehicle_ENU :: "AirSimLidarType \<Rightarrow> Isometry3f" where
  "lidar_tf_world_vehicle_ENU l =
     (let translation_trans_vehicle = position (lidar_vehicle_pose_ENU l);
          rotation_quat_vehicle = orientation (lidar_vehicle_pose_ENU l)
      in Translation_times translation_trans_vehicle rotation_quat_vehicle)"

text \<open>Lines 472 to 487: the lidar pose of the buffered lidar sample, from NED to ENU.\<close>

definition lidar_pose_world_ENU :: "AirSimLidarType \<Rightarrow> Pose" where
  "lidar_pose_world_ENU l =
     (let lidar_position_world_ENU =
            \<lparr>vx = vy (position (lidar_pose_world_NED l)),
             vy = vx (position (lidar_pose_world_NED l)),
             vz = -1 * vz (position (lidar_pose_world_NED l))\<rparr>;
          NED_quat_lidar = orientation (lidar_pose_world_NED l);
          xTo = -180 * (pi / 180);
          zTo = 90 * (pi / 180);
          lidar_orientation_world_ENU = AngleAxis_times xTo UnitX NED_quat_lidar;
          lidar_orientation_world_ENU = AngleAxis_times zTo UnitZ lidar_orientation_world_ENU
      in \<lparr>position = lidar_position_world_ENU, orientation = lidar_orientation_world_ENU\<rparr>)"

definition tf_world_lidar_ENU :: "AirSimLidarType \<Rightarrow> Isometry3f" where
  "tf_world_lidar_ENU l =
     (let translation_trans_lidar = position (lidar_pose_world_ENU l);
          rotation_quat_lidar = orientation (lidar_pose_world_ENU l)
      in Translation_times translation_trans_lidar rotation_quat_lidar)"

text \<open>Lines 490 to 507: the lidar in the vehicle frame, as a transform message.\<close>

definition step_laser_trans :: "ROSAirSim \<Rightarrow> TransformStamped" where
  "step_laser_trans s =
     (let tf_vehicle_lidar_ENU =
            iso_mul (iso_inverse (lidar_tf_world_vehicle_ENU (lidar_data' s)))
              (tf_world_lidar_ENU (lidar_data' s));
          tf_vehicle_lidar_ENU_rotation = quat_of_matrix (iso_linear tf_vehicle_lidar_ENU)
      in \<lparr>frame_id = ros_namespace' s @ ''/base_link'',
          child_frame_id = ros_namespace' s @ ''/base_laser'',
          transform = \<lparr>translation = iso_translation tf_vehicle_lidar_ENU,
                       rotation = tf_vehicle_lidar_ENU_rotation\<rparr>\<rparr>)"

text \<open>Lines 513 to 523: the world transform, from the vehicle pose of the lidar sample.\<close>

definition lidar_world_trans :: "ROSAirSim \<Rightarrow> TransformStamped" where
  "lidar_world_trans s =
     (let tf_world_vehicle_ENU = lidar_tf_world_vehicle_ENU (lidar_data' s);
          tf_vehicle_pose_rotation = quat_of_matrix (iso_linear tf_world_vehicle_ENU)
      in (world_trans' s)
           \<lparr>frame_id := ''world'',
            child_frame_id := ros_namespace' s @ ''/base_link'',
            transform := \<lparr>translation = iso_translation tf_world_vehicle_ENU,
                          rotation = tf_vehicle_pose_rotation\<rparr>\<rparr>)"

text \<open>Lines 276 to 411: the image part of a tick; the state, the events, the transforms.\<close>

definition step_images ::
  "ROSAirSim \<Rightarrow> bool \<Rightarrow> ROSAirSim \<times> event list \<times> TransformStamped list" where
  "step_images s img_topic_published =
     (if pub_image_data' s \<and> img_topic_published then
        (let ev = concat (map (step_image_body s) (image_data' s));
             (s, tf) = step_camera_loop s (camera_names' s)
         in (s, ev, tf))
      else (s, [], []))"

text \<open>Lines 415 to 526: the lidar part of a tick.\<close>

definition step_lidar :: "ROSAirSim \<Rightarrow> ROSAirSim \<times> event list \<times> TransformStamped list" where
  "step_lidar s =
     (if pub_lidar_data' s then
        (let lidar_msg = step_lidar_msg s;
             ev = [PublishCloud (base_scan_pub' s) lidar_msg];
             laser_trans' = step_laser_trans s;
             s = s\<lparr>world_trans' := lidar_world_trans s\<rparr>
         in (s, ev, [laser_trans', world_trans' s]))
      else (s, [], []))"

definition step_autonomy :: "ROSAirSim \<Rightarrow> real \<Rightarrow> real \<Rightarrow> ROSAirSim \<times> event list \<times> bool" where
  "step_autonomy s t dt =
     (let tf_msg_vec' = [];
          img_topic_published = img_topic_published' s;
          ev = [SpinOnce, Lock, ReadFlag img_topic_published, Unlock];
          (s, ev_img, tf_img) = step_images s img_topic_published;
          tf_msg_vec' = tf_msg_vec' @ tf_img;
          (s, ev_lidar, tf_lidar) = step_lidar s;
          tf_msg_vec' = tf_msg_vec' @ tf_lidar
      in (s, ev @ ev_img @ ev_lidar @ [SendTransform tf_msg_vec'], True))"

subsection \<open>Initialization (lines 61 to 263)\<close>

text \<open>
  \<^verbatim>\<open>scrimmage::get\<close> (ParseUtils.h) is not part of the file: the conversions of a
  parameter to a bool and to a string are arguments, called with the key, the
  parameters and the default as the source passes them.  So are the answer of
  \<^verbatim>\<open>ros::isInitialized()\<close> and the object as the constructor left it.
\<close>

definition init ::
  "(string \<Rightarrow> (string \<rightharpoonup> string) \<Rightarrow> string \<Rightarrow> bool) \<Rightarrow>
   (string \<Rightarrow> (string \<rightharpoonup> string) \<Rightarrow> string \<Rightarrow> string) \<Rightarrow>
   bool \<Rightarrow> Entity \<Rightarrow> ROSAirSim \<Rightarrow> (string \<rightharpoonup> string) \<Rightarrow> ROSAirSim \<times> event list" where
  "init get_bool get_string ros_isInitialized parent' s params =
     (let s = s\<lparr>show_camera_images' := get_bool ''show_camera_images'' params ''false''\<rparr>;
          s = s\<lparr>pub_image_data' := get_bool ''pub_image_data'' params ''true''\<rparr>;
          s = s\<lparr>pub_lidar_data' := get_bool ''pub_lidar_data'' params ''true''\<rparr>;
          ev = [Cout '' '']
               @ (if pub_image_data' s then [Cout ''Publishing AirSim images to ROS.''] else [])
               @ (if pub_lidar_data' s then [Cout ''Publishing AirSim LIDAR data to ROS.''] else [])
               @ (if show_camera_images' s
                  then [Cout ''ROSAirSim: Showing camera images in OpenCV windows.''] else [])
               @ (if \<not> ros_isInitialized then [RosInit] else []);
          s = s\<lparr>ros_name' := get_string ''ros_namespace_prefix'' params ''robot''\<rparr>;
          s = s\<lparr>ros_namespace' := ros_name' s @ to_string (entity_id parent')\<rparr>;
          s = s\<lparr>base_scan_pub' := ros_namespace' s @ ''/base_scan''\<rparr>;
          ev = ev @ [Advertise (ros_namespace' s @ ''/base_scan'')];
          s = s\<lparr>world_trans' := (world_trans' s)
                 \<lparr>frame_id := ''world'',
                  child_frame_id := ros_namespace' s @ ''/base_link'',
                  transform := \<lparr>translation = \<lparr>vx = vx (state_pos parent'),
                                               vy = vy (state_pos parent'),
                                               vz = vz (state_pos parent')\<rparr>,
                                rotation = \<lparr>qw = qw (state_quat parent'),
                                            qx = qx (state_quat parent'),
                                            qy = qy (state_quat parent'),
                                            qz = qz (state_quat parent')\<rparr>\<rparr>\<rparr>\<rparr>;
          ev = ev @ [SendTransform [world_trans' s]]
      in (s, ev
             @ (if pub_lidar_data' s then [Subscribe ''LocalNetwork'' ''AirSimLidar''] else [])
             @ (if pub_image_data' s then [Subscribe ''LocalNetwork'' ''AirSimImages''] else [])))"

subsection \<open>Runs: messages delivered to the subscribed callbacks, and ticks\<close>

datatype input =
    LidarMsg AirSimLidarType
  | ImagesMsg "AirSimImageType list"
  | Tick real real

text \<open>A callback runs only when init subscribed it (lines 257 to 262).\<close>

fun deliver :: "ROSAirSim \<Rightarrow> input \<Rightarrow> ROSAirSim \<times> event list" where
  "deliver s (LidarMsg msg) = (if pub_lidar_data' s then airsim_lidar_cb s msg else (s, []))"
| "deliver s (ImagesMsg msg) = (if pub_image_data' s then airsim_image_cb s msg else (s, []))"
| "deliver s (Tick t dt) = (let (s, ev, ok) = step_autonomy s t dt in (s, ev))"

fun run :: "ROSAirSim \<Rightarrow> input list \<Rightarrow> ROSAirSim \<times> event list" where
  "run s [] = (s, [])"
| "run s (i # is) =
     (let (s1, ev1) = deliver s i;
          (s2, ev2) = run s1 is
      in (s2, ev1 @ ev2))"

subsection \<open>Reading a list of events\<close>

text \<open>The images published, each with its topic, in order.\<close>

fun image_pubs :: "event list \<Rightarrow> (string \<times> ImageMsg) list" where
  "image_pubs [] = []"
| "image_pubs (PublishImage topic m # es) = (topic, m) # image_pubs es"
| "image_pubs (e # es) = image_pubs es"

text \<open>The point clouds published, each with its topic, in order.\<close>

fun cloud_pubs :: "event list \<Rightarrow> (string \<times> PointCloud2) list" where
  "cloud_pubs [] = []"
| "cloud_pubs (PublishCloud topic m # es) = (topic, m) # cloud_pubs es"
| "cloud_pubs (e # es) = cloud_pubs es"

text \<open>The transform lists handed to the broadcaster, in order.\<close>

fun broadcasts :: "event list \<Rightarrow> TransformStamped list list" where
  "broadcasts [] = []"
| "broadcasts (SendTransform tfs # es) = tfs # broadcasts es"
| "broadcasts (e # es) = broadcasts es"

text \<open>The image topics advertised, in order.\<close>

fun advertised :: "event list \<Rightarrow> string list" where
  "advertised [] = []"
| "advertised (AdvertiseImage topic # es) = topic # advertised es"
| "advertised (e # es) = advertised es"

text \<open>
  The lock discipline of a list of events, read from left to right with the mutex held
  or not: the mutex is locked only when free and unlocked only when held, the flag is
  read and written only while it is held, and it is free at the end.
\<close>

fun guarded :: "bool \<Rightarrow> event list \<Rightarrow> bool" where
  "guarded held [] = (\<not> held)"
| "guarded held (Lock # es) = (\<not> held \<and> guarded True es)"
| "guarded held (Unlock # es) = (held \<and> guarded False es)"
| "guarded held (ReadFlag b # es) = (held \<and> guarded held es)"
| "guarded held (WriteFlag b # es) = (held \<and> guarded held es)"
| "guarded held (e # es) = guarded held es"

text \<open>The events that touch the mutex or the flag.\<close>

fun on_flag :: "event \<Rightarrow> bool" where
  "on_flag Lock = True"
| "on_flag Unlock = True"
| "on_flag (ReadFlag b) = True"
| "on_flag (WriteFlag b) = True"
| "on_flag e = False"

text \<open>The number of floats of the buffered point cloud.\<close>

definition cloud_size :: "ROSAirSim \<Rightarrow> nat" where
  "cloud_size s = length (point_cloud (lidar_data (lidar_data' s)))"

subsection \<open>Sample values\<close>

definition ex_pose :: Pose where
  "ex_pose = \<lparr>position = \<lparr>vx = 1, vy = 2, vz = 3\<rparr>,
              orientation = \<lparr>qw = 1, qx = 0, qy = 0, qz = 0\<rparr>\<rparr>"

definition ex_image_front :: AirSimImageType where
  "ex_image_front =
     \<lparr>vehicle_name = ''robot1'',
      camera_config = \<lparr>cam_name = ''front'', img_type_name = ''Scene'', pixels_as_float = False\<rparr>,
      img = [1, 2, 3],
      vehicle_pose_world_NED = ex_pose,
      camera_pose_world_NED = ex_pose\<rparr>"

definition ex_image_rear :: AirSimImageType where
  "ex_image_rear =
     \<lparr>vehicle_name = ''robot1'',
      camera_config = \<lparr>cam_name = ''rear'', img_type_name = ''Scene'', pixels_as_float = False\<rparr>,
      img = [4, 5, 6],
      vehicle_pose_world_NED = ex_pose,
      camera_pose_world_NED = ex_pose\<rparr>"

definition ex_lidar :: "float32 list \<Rightarrow> AirSimLidarType" where
  "ex_lidar pc =
     \<lparr>lidar_data = \<lparr>point_cloud = pc\<rparr>,
      lidar_vehicle_pose_world_NED = ex_pose,
      lidar_pose_world_NED = ex_pose\<rparr>"

text \<open>The object as init leaves it for robot 1, both kinds of data published.\<close>

definition ex_object :: ROSAirSim where
  "ex_object =
     \<lparr>show_camera_images' = False,
      pub_image_data' = True,
      pub_lidar_data' = True,
      ros_name' = ''robot'',
      ros_namespace' = ''robot1'',
      base_scan_pub' = ''robot1/base_scan'',
      world_trans' = \<lparr>frame_id = ''world'', child_frame_id = ''robot1/base_link'',
                      transform = \<lparr>translation = \<lparr>vx = 0, vy = 0, vz = 0\<rparr>,
                                   rotation = \<lparr>qw = 1, qx = 0, qy = 0, qz = 0\<rparr>\<rparr>\<rparr>,
      lidar_data' = ex_lidar [],
      image_data' = [],
      img_publishers' = [],
      camera_names' = [],
      img_topic_published' = False\<rparr>"

text \<open>Two points buffered, and a message of one point.\<close>

definition ex_scan6 :: ROSAirSim where
  "ex_scan6 = ex_object\<lparr>lidar_data' := ex_lidar [0x3F800000, 0, 0, 0, 0x3F800000, 0]\<rparr>"

definition ex_scan3 :: AirSimLidarType where
  "ex_scan3 = ex_lidar [0x3F800000, 0, 0]"

text \<open>The same object with neither kind of data published.\<close>

definition ex_idle :: ROSAirSim where
  "ex_idle = ex_object\<lparr>pub_image_data' := False, pub_lidar_data' := False\<rparr>"

text \<open>
  The object after a first image message from camera \<open>front\<close>, and after a second
  message from camera \<open>rear\<close>.
\<close>

definition ex_buffered :: ROSAirSim where
  "ex_buffered = ex_object
     \<lparr>image_data' := [ex_image_front],
      img_publishers' := [''/robot1/front/scene''],
      camera_names' := [''front''],
      img_topic_published' := True\<rparr>"

definition ex_late :: ROSAirSim where
  "ex_late = ex_buffered\<lparr>image_data' := [ex_image_rear]\<rparr>"

subsection \<open>The conversion and the topics, as the claims word them\<close>

text \<open>
  The rotations by \<open>d\<close> degrees about X and about Z as unit quaternions, and the conversion
  of a pose in the words of the text: swap x and y and negate z; rotate by -180 degrees
  about X, then by 90 degrees about Z.
\<close>

definition Rx_deg :: "real \<Rightarrow> Quaternionf" where
  "Rx_deg d = \<lparr>qw = cos (d * pi / 180 / 2), qx = sin (d * pi / 180 / 2), qy = 0, qz = 0\<rparr>"

definition Rz_deg :: "real \<Rightarrow> Quaternionf" where
  "Rz_deg d = \<lparr>qw = cos (d * pi / 180 / 2), qx = 0, qy = 0, qz = sin (d * pi / 180 / 2)\<rparr>"

definition ned_to_enu :: "Pose \<Rightarrow> Pose" where
  "ned_to_enu p =
     \<lparr>position = \<lparr>vx = vy (position p), vy = vx (position p), vz = - vz (position p)\<rparr>,
      orientation = quat_mul (Rz_deg 90) (quat_mul (Rx_deg (-180)) (orientation p))\<rparr>"

text \<open>The topic of an image under a namespace, and the message made of it.\<close>

definition image_topic :: "string \<Rightarrow> AirSimImageType \<Rightarrow> string" where
  "image_topic ns a =
     ''/'' @ ns @ ''/'' @ to_lower_copy (cam_name (camera_config a)) @ ''/''
       @ to_lower_copy (img_type_name (camera_config a))"

definition image_msg :: "string \<Rightarrow> AirSimImageType \<Rightarrow> ImageMsg" where
  "image_msg ns a =
     \<lparr>img_frame_id = ns @ ''/'' @ to_lower_copy (cam_name (camera_config a)) @ ''/images'',
      encoding = (if pixels_as_float (camera_config a) then [] else ''rgb8''),
      img_data = img a\<rparr>"

section \<open>Properties\<close>

subsection \<open>Event lists\<close>

lemma image_pubs_append: "image_pubs (a @ b) = image_pubs a @ image_pubs b"
  by (induction a rule: image_pubs.induct) simp_all

lemma cloud_pubs_append: "cloud_pubs (a @ b) = cloud_pubs a @ cloud_pubs b"
  by (induction a rule: cloud_pubs.induct) simp_all

lemma broadcasts_append: "broadcasts (a @ b) = broadcasts a @ broadcasts b"
  by (induction a rule: broadcasts.induct) simp_all

lemma advertised_append: "advertised (a @ b) = advertised a @ advertised b"
  by (induction a rule: advertised.induct) simp_all

lemma guarded_skip: "\<not> list_ex on_flag a \<Longrightarrow> guarded held (a @ b) = guarded held b"
  by (induction a arbitrary: held) (auto elim: on_flag.elims)

lemma guarded_append: "guarded False a \<Longrightarrow> guarded False (a @ b) = guarded False b"
proof -
  have "guarded h a \<Longrightarrow> guarded h (a @ b) = guarded False b" for h
    by (induction h a rule: guarded.induct) auto
  then show "guarded False a \<Longrightarrow> guarded False (a @ b) = guarded False b" .
qed

lemma filter_on_flag_none: "\<not> list_ex on_flag a \<Longrightarrow> filter on_flag a = []"
  by (induction a) auto

subsection \<open>No routine touches the flag or the mutex inside its loops\<close>

lemma step_publish_loop_no_flag: "\<not> list_ex on_flag (step_publish_loop pubs tn fr a)"
  by (induction pubs) (simp_all add: Let_def)

lemma step_image_body_no_flag: "\<not> list_ex on_flag (step_image_body s a)"
  using step_publish_loop_no_flag by (simp add: step_image_body_def Let_def)

lemma step_images_no_flag: "\<not> list_ex on_flag (fst (snd (step_images s b)))"
  using step_image_body_no_flag
  by (simp add: step_images_def Let_def split_def list_ex_iff)

lemma step_lidar_no_flag: "\<not> list_ex on_flag (fst (snd (step_lidar s)))"
  by (simp add: step_lidar_def Let_def)

lemma cb_image_body_no_flag: "\<not> list_ex on_flag (snd (cb_image_body s a))"
  by (simp add: cb_image_body_def Let_def)

lemma cb_image_loop_no_flag: "\<not> list_ex on_flag (snd (cb_image_loop s as))"
  using cb_image_body_no_flag
  by (induction as arbitrary: s) (simp_all add: split_def Let_def)

lemma step_tail_no_flag:
  "\<not> list_ex on_flag (fst (snd (step_images s b)) @ fst (snd (step_lidar s1)) @ [SendTransform tfs])"
  using step_images_no_flag step_lidar_no_flag by simp

lemma guarded_step: "guarded False (fst (snd (step_autonomy s t dt)))"
  using guarded_skip[OF step_tail_no_flag, where b = "[]"]
  by (simp add: step_autonomy_def split_def Let_def)

lemma guarded_image_cb: "guarded False (snd (airsim_image_cb s msg))"
proof -
  have "guarded False (snd (cb_image_loop s1 as) @ [Lock, WriteFlag True, Unlock])" for s1 as
    using guarded_skip[OF cb_image_loop_no_flag] by simp
  then show ?thesis
    by (simp add: airsim_image_cb_def split_def Let_def)
qed

lemma guarded_deliver: "guarded False (snd (deliver s i))"
  using guarded_step guarded_image_cb
  by (cases i) (simp_all add: airsim_lidar_cb_def split_def Let_def)

lemma guarded_run: "guarded False (snd (run s is))"
  using guarded_deliver
  by (induction "is" arbitrary: s) (simp_all add: split_def Let_def guarded_append)

lemma flag_events_step:
  "filter on_flag (fst (snd (step_autonomy s t dt))) = [Lock, ReadFlag (img_topic_published' s), Unlock]"
  using filter_on_flag_none[OF step_tail_no_flag]
  by (simp add: step_autonomy_def split_def Let_def)

lemma flag_events_image_cb:
  "filter on_flag (snd (airsim_image_cb s msg)) =
     (if msg = [] then []
      else if img_topic_published' s then [Lock, ReadFlag True, Unlock]
      else [Lock, ReadFlag False, Unlock, Lock, WriteFlag True, Unlock])"
  using filter_on_flag_none[OF cb_image_loop_no_flag]
  by (simp add: airsim_image_cb_def split_def Let_def)

lemma guarded_init: "guarded False (snd (init gb gs ri p s params))"
  by (simp add: init_def Let_def)

subsection \<open>A tick changes nothing but the world transform\<close>

lemma same_world: "\<exists>w. s = s\<lparr>world_trans' := w\<rparr>"
  by (rule exI[of _ "world_trans' s"]) simp

lemma step_camera_find_state: "\<exists>w. fst (step_camera_find s c as) = s\<lparr>world_trans' := w\<rparr>"
proof (induction as)
  case Nil
  show ?case using same_world by simp
next
  case (Cons a as)
  show ?case
  proof (cases "cam_name (camera_config a) = c")
    case False
    with Cons show ?thesis by simp
  next
    case True
    then show ?thesis using same_world
      by (cases "pub_lidar_data' s") (auto simp: Let_def)
  qed
qed

lemma step_camera_loop_state: "\<exists>w. fst (step_camera_loop s cs) = s\<lparr>world_trans' := w\<rparr>"
proof (induction cs arbitrary: s)
  case Nil
  show ?case using same_world by simp
next
  case (Cons c cs)
  obtain w1 where w1: "fst (step_camera_find s c (image_data' s)) = s\<lparr>world_trans' := w1\<rparr>"
    using step_camera_find_state by blast
  obtain w2 where "fst (step_camera_loop (s\<lparr>world_trans' := w1\<rparr>) cs) = s\<lparr>world_trans' := w1\<rparr>\<lparr>world_trans' := w2\<rparr>"
    using Cons by blast
  then show ?case using w1 by (auto simp: split_def Let_def)
qed

lemma step_images_state: "\<exists>w. fst (step_images s b) = s\<lparr>world_trans' := w\<rparr>"
proof (cases "pub_image_data' s \<and> b")
  case True
  then show ?thesis using step_camera_loop_state[of s "camera_names' s"]
    by (auto simp: step_images_def split_def Let_def)
next
  case False
  then show ?thesis using same_world by (auto simp: step_images_def)
qed

subsection \<open>The point cloud message\<close>

lemma step_lidar_msg_world: "step_lidar_msg (s\<lparr>world_trans' := w\<rparr>) = step_lidar_msg s"
  by (simp add: step_lidar_msg_def Let_def)

lemma step_publish_loop_no_cloud: "cloud_pubs (step_publish_loop pubs tn fr a) = []"
  by (induction pubs) (simp_all add: Let_def)

lemma step_image_body_no_cloud: "cloud_pubs (step_image_body s a) = []"
  by (simp add: step_image_body_def Let_def cloud_pubs_append step_publish_loop_no_cloud)

lemma cloud_pubs_concat: "cloud_pubs (concat xs) = concat (map cloud_pubs xs)"
  by (induction xs) (simp_all add: cloud_pubs_append)

lemma step_images_no_cloud: "cloud_pubs (fst (snd (step_images s b))) = []"
  by (simp add: step_images_def split_def Let_def cloud_pubs_concat step_image_body_no_cloud)

lemma cloud_pubs_step:
  "cloud_pubs (fst (snd (step_autonomy s t dt))) =
     (if pub_lidar_data' s then [(base_scan_pub' s, step_lidar_msg s)] else [])"
proof -
  obtain w where w: "fst (step_images s (img_topic_published' s)) = s\<lparr>world_trans' := w\<rparr>"
    using step_images_state by blast
  show ?thesis
    by (simp add: step_autonomy_def split_def Let_def cloud_pubs_append step_images_no_cloud w
        step_lidar_def step_lidar_msg_world)
qed

lemma fill_three:
  "fill_fields [f0, f1, f2] 0 =
     ([f0\<lparr>pf_offset := 0, pf_datatype := FLOAT32, pf_count := 1\<rparr>,
       f1\<lparr>pf_offset := 4, pf_datatype := FLOAT32, pf_count := 1\<rparr>,
       f2\<lparr>pf_offset := 8, pf_datatype := FLOAT32, pf_count := 1\<rparr>], 12)"
  by simp

lemma three_fields:
  "(let fs = replicate 3 PointField_default;
        fs = fs[0 := (fs ! 0)\<lparr>pf_name := ''x''\<rparr>];
        fs = fs[1 := (fs ! 1)\<lparr>pf_name := ''y''\<rparr>];
        fs = fs[2 := (fs ! 2)\<lparr>pf_name := ''z''\<rparr>]
    in fs) =
   [PointField_default\<lparr>pf_name := ''x''\<rparr>, PointField_default\<lparr>pf_name := ''y''\<rparr>,
    PointField_default\<lparr>pf_name := ''z''\<rparr>]"
  by (simp add: numeral_3_eq_3 numeral_2_eq_2)

lemma step_lidar_msg_filled:
  "3 < length (point_cloud (lidar_data (lidar_data' s))) \<Longrightarrow>
   step_lidar_msg s =
     \<lparr>pc_frame_id = ros_namespace' s @ ''/base_laser'',
      height = 1,
      width = word_of_nat (length (point_cloud (lidar_data (lidar_data' s))) div 3),
      pc_fields = [\<lparr>pf_name = ''x'', pf_offset = 0, pf_datatype = FLOAT32, pf_count = 1\<rparr>,
                   \<lparr>pf_name = ''y'', pf_offset = 4, pf_datatype = FLOAT32, pf_count = 1\<rparr>,
                   \<lparr>pf_name = ''z'', pf_offset = 8, pf_datatype = FLOAT32, pf_count = 1\<rparr>],
      is_bigendian = False,
      point_step = 12,
      row_step = 12 * word_of_nat (length (point_cloud (lidar_data (lidar_data' s))) div 3),
      data = concat (map float_bytes (point_cloud (lidar_data (lidar_data' s)))),
      is_dense = True\<rparr>"
  using three_fields
  by (simp add: step_lidar_msg_def Let_def fill_three PointCloud2_default_def PointField_default_def)

lemma length_float_bytes: "length (concat (map float_bytes pc)) = 4 * length pc"
  by (induction pc) (simp_all add: float_bytes_def)

lemma width_exact:
  assumes "4 * n < (2::nat) ^ 32"
  shows "unat (word_of_nat (n div 3) :: 32 word) = n div 3"
    and "unat (12 * word_of_nat (n div 3) :: 32 word) = 12 * (n div 3)"
proof -
  have a: "n div 3 < 2 ^ 32" using assms by simp
  have b: "12 * (n div 3) < 2 ^ 32" using assms by simp
  show "unat (word_of_nat (n div 3) :: 32 word) = n div 3"
    using a by (simp add: unat_of_nat)
  have "(12 * word_of_nat (n div 3) :: 32 word) = word_of_nat (12 * (n div 3))" by simp
  moreover have "unat (word_of_nat (12 * (n div 3)) :: 32 word) = 12 * (n div 3)"
    using b by (simp only: unat_of_nat) simp
  ultimately show "unat (12 * word_of_nat (n div 3) :: 32 word) = 12 * (n div 3)"
    by simp
qed


lemma step_lidar_msg_empty:
  "length (point_cloud (lidar_data (lidar_data' s))) \<le> 3 \<Longrightarrow>
   step_lidar_msg s = PointCloud2_default\<lparr>pc_frame_id := ros_namespace' s @ ''/base_laser''\<rparr>"
  by (simp add: step_lidar_msg_def)

subsection \<open>From NED to ENU\<close>

lemma AngleAxis_X: "quat_of_AngleAxis (- pi) UnitX = Rx_deg (-180)"
  by (simp add: quat_of_AngleAxis_def UnitX_def Rx_deg_def Let_def)

lemma AngleAxis_Z: "quat_of_AngleAxis (pi / 2) UnitZ = Rz_deg 90"
  by (simp add: quat_of_AngleAxis_def UnitZ_def Rz_deg_def Let_def)

lemma Rx_180: "Rx_deg (-180) = \<lparr>qw = 0, qx = -1, qy = 0, qz = 0\<rparr>"
  by (simp add: Rx_deg_def)

lemma Rz_90: "Rz_deg 90 = \<lparr>qw = sqrt 2 / 2, qx = 0, qy = 0, qz = sqrt 2 / 2\<rparr>"
  by (simp add: Rz_deg_def cos_45 sin_45)

lemma ned_to_enu_orientation:
  "orientation (ned_to_enu p) =
     \<lparr>qw = sqrt 2 / 2 * (qx (orientation p) + qy (orientation p)),
      qx = - (sqrt 2 / 2) * (qw (orientation p) + qz (orientation p)),
      qy = sqrt 2 / 2 * (qz (orientation p) - qw (orientation p)),
      qz = sqrt 2 / 2 * (qx (orientation p) - qy (orientation p))\<rparr>"
  by (simp add: ned_to_enu_def Rx_180 Rz_90 quat_mul_def algebra_simps)

lemma ned_to_enu_rotation_matrix:
  "toRotationMatrix (quat_mul (Rz_deg 90) (Rx_deg (-180))) =
     \<lparr>m00 = 0, m01 = 1, m02 = 0, m10 = 1, m11 = 0, m12 = 0, m20 = 0, m21 = 0, m22 = -1\<rparr>"
  by (simp add: Rx_180 Rz_90 quat_mul_def toRotationMatrix_def Let_def)

lemma ned_to_enu_position:
  "position (ned_to_enu p) =
     mat_vec (toRotationMatrix (quat_mul (Rz_deg 90) (Rx_deg (-180)))) (position p)"
  by (simp add: ned_to_enu_rotation_matrix mat_vec_def ned_to_enu_def)

subsection \<open>The six conversions are one conversion\<close>

lemma pose_ENU_sites:
  "cb_vehicle_pose_ENU a = ned_to_enu (vehicle_pose_world_NED a)"
  "cb_camera_pose_world_ENU a = ned_to_enu (camera_pose_world_NED a)"
  "step_vehicle_pose_ENU a = ned_to_enu (vehicle_pose_world_NED a)"
  "step_camera_pose_world_ENU a = ned_to_enu (camera_pose_world_NED a)"
  "lidar_vehicle_pose_ENU l = ned_to_enu (lidar_vehicle_pose_world_NED l)"
  "lidar_pose_world_ENU l = ned_to_enu (lidar_pose_world_NED l)"
  by (simp_all add: cb_vehicle_pose_ENU_def cb_camera_pose_world_ENU_def step_vehicle_pose_ENU_def
      step_camera_pose_world_ENU_def lidar_vehicle_pose_ENU_def lidar_pose_world_ENU_def
      ned_to_enu_def AngleAxis_times_def AngleAxis_X AngleAxis_Z Let_def)

lemma ned_to_enu_ex_pose:
  "ned_to_enu ex_pose =
     \<lparr>position = \<lparr>vx = 2, vy = 1, vz = -3\<rparr>,
      orientation = \<lparr>qw = 0, qx = - (sqrt 2 / 2), qy = - (sqrt 2 / 2), qz = 0\<rparr>\<rparr>"
  by (simp add: ned_to_enu_def Rx_180 Rz_90 quat_mul_def ex_pose_def)

lemma rotation_of_ex_pose:
  "toRotationMatrix \<lparr>qw = 0, qx = - (sqrt 2 / 2), qy = - (sqrt 2 / 2), qz = 0\<rparr> =
     \<lparr>m00 = 0, m01 = 1, m02 = 0, m10 = 1, m11 = 0, m12 = 0, m20 = 0, m21 = 0, m22 = -1\<rparr>"
  by (simp add: toRotationMatrix_def Let_def)

lemma quat_of_identity:
  "quat_of_matrix \<lparr>m00 = 1, m01 = 0, m02 = 0, m10 = 0, m11 = 1, m12 = 0, m20 = 0, m21 = 0, m22 = 1\<rparr> =
     \<lparr>qw = 1, qx = 0, qy = 0, qz = 0\<rparr>"
  by (simp add: quat_of_matrix_def Let_def)

text \<open>
  The matrix conversion gives back the quaternion only up to sign: the world rotation
  published for \<open>ex_pose\<close> is the negated ENU quaternion (the same rotation).
\<close>

lemma quat_of_rotation_of_ex_pose:
  "quat_of_matrix \<lparr>m00 = 0, m01 = 1, m02 = 0, m10 = 1, m11 = 0, m12 = 0, m20 = 0, m21 = 0, m22 = -1\<rparr> =
     \<lparr>qw = 0, qx = sqrt 2 / 2, qy = sqrt 2 / 2, qz = 0\<rparr>"
  by (simp add: quat_of_matrix_def Let_def real_div_sqrt)

lemma step_image_trans_ex:
  "transform (step_image_trans ''robot1'' ''rear'' ex_image_rear) =
     \<lparr>translation = \<lparr>vx = 0, vy = 0, vz = 0\<rparr>, rotation = \<lparr>qw = 1, qx = 0, qy = 0, qz = 0\<rparr>\<rparr>"
  by (simp add: step_image_trans_def step_tf_world_vehicle_ENU_def step_tf_world_camera_ENU_def
      pose_ENU_sites ex_image_rear_def ned_to_enu_ex_pose Translation_times_def
      rotation_of_ex_pose iso_inverse_def iso_mul_def transpose3_def mat_vec_def mat_mul_def
      quat_of_identity Let_def)

subsection \<open>The image callback\<close>

lemma lower_front: "to_lower_copy ''front'' = ''front''"
  and lower_rear: "to_lower_copy ''rear'' = ''rear''"
  and lower_Scene: "to_lower_copy ''Scene'' = ''scene''"
  by (simp_all add: to_lower_copy_def to_lower_char_def char_of_def bit_0)

lemma cb_image_body_state:
  "\<exists>w. fst (cb_image_body s a) =
     s\<lparr>img_publishers' := img_publishers' s @ [image_topic (ros_namespace' s) a],
       camera_names' := (if to_lower_copy (cam_name (camera_config a)) \<in> set (camera_names' s)
                         then camera_names' s
                         else camera_names' s @ [to_lower_copy (cam_name (camera_config a))]),
       world_trans' := w\<rparr>"
proof (cases "to_lower_copy (cam_name (camera_config a)) \<in> set (camera_names' s)")
  case True
  then show ?thesis
    by (intro exI[of _ "world_trans' s"]) (simp add: cb_image_body_def image_topic_def Let_def)
next
  case False
  show ?thesis
  proof (cases "pub_lidar_data' s")
    case True
    with False show ?thesis
      by (intro exI[of _ "world_trans' s"]) (simp add: cb_image_body_def image_topic_def Let_def)
  next
    case nolidar: False
    with False show ?thesis
      by (simp add: cb_image_body_def image_topic_def Let_def) blast
  qed
qed

lemma cb_image_body_pubs:
  "image_pubs (snd (cb_image_body s a)) =
     [(image_topic (ros_namespace' s) a, image_msg (ros_namespace' s) a)]"
  and cb_image_body_adv:
  "advertised (snd (cb_image_body s a)) = [image_topic (ros_namespace' s) a]"
  by (simp_all add: cb_image_body_def image_topic_def image_msg_def Let_def toImageMsg_def)

lemma airsim_image_cb_published:
  "img_topic_published' s \<Longrightarrow>
   airsim_image_cb s msg =
     (s\<lparr>image_data' := msg\<rparr>, if msg = [] then [] else [Lock, ReadFlag True, Unlock])"
  by (simp add: airsim_image_cb_def Let_def)

lemma airsim_image_cb_empty: "airsim_image_cb s [] = (s\<lparr>image_data' := []\<rparr>, [])"
  by (simp add: airsim_image_cb_def)

lemma airsim_lidar_cb_short:
  "length (point_cloud (lidar_data msg)) < 3 \<Longrightarrow> airsim_lidar_cb s msg = (s, [])"
  by (simp add: airsim_lidar_cb_def)

lemma first_message: "fst (airsim_image_cb ex_object [ex_image_front]) = ex_buffered"
  by (simp add: airsim_image_cb_def cb_image_body_def ex_object_def ex_buffered_def
      ex_image_front_def lower_front lower_Scene Let_def)


lemma cb_image_loop_state:
  "\<exists>c w. fst (cb_image_loop s as) =
     s\<lparr>img_publishers' := img_publishers' s @ map (image_topic (ros_namespace' s)) as,
       camera_names' := c, world_trans' := w\<rparr>"
proof (induction as arbitrary: s)
  case Nil
  show ?case
    by (intro exI[of _ "camera_names' s"] exI[of _ "world_trans' s"]) simp
next
  case (Cons a as)
  obtain w1 c1 where b: "fst (cb_image_body s a) =
     s\<lparr>img_publishers' := img_publishers' s @ [image_topic (ros_namespace' s) a],
       camera_names' := c1, world_trans' := w1\<rparr>"
    using cb_image_body_state[of s a] by blast
  obtain c2 w2 where l: "fst (cb_image_loop (fst (cb_image_body s a)) as) =
     (fst (cb_image_body s a))
       \<lparr>img_publishers' := img_publishers' (fst (cb_image_body s a))
            @ map (image_topic (ros_namespace' (fst (cb_image_body s a)))) as,
        camera_names' := c2, world_trans' := w2\<rparr>"
    using Cons[of "fst (cb_image_body s a)"] by blast
  show ?case
    by (intro exI[of _ c2] exI[of _ w2]) (simp add: split_def Let_def l, simp add: b)
qed

lemma cb_image_loop_adv:
  "advertised (snd (cb_image_loop s as)) = map (image_topic (ros_namespace' s)) as"
proof (induction as arbitrary: s)
  case Nil
  show ?case by simp
next
  case (Cons a as)
  obtain w1 c1 where b: "fst (cb_image_body s a) =
     s\<lparr>img_publishers' := img_publishers' s @ [image_topic (ros_namespace' s) a],
       camera_names' := c1, world_trans' := w1\<rparr>"
    using cb_image_body_state[of s a] by blast
  have "ros_namespace' (fst (cb_image_body s a)) = ros_namespace' s" by (simp add: b)
  then show ?case
    using Cons[of "fst (cb_image_body s a)"]
    by (simp add: split_def Let_def advertised_append cb_image_body_adv)
qed

lemma cb_image_loop_pubs:
  "image_pubs (snd (cb_image_loop s as)) =
     map (\<lambda>a. (image_topic (ros_namespace' s) a, image_msg (ros_namespace' s) a)) as"
proof (induction as arbitrary: s)
  case Nil
  show ?case by simp
next
  case (Cons a as)
  obtain w1 c1 where b: "fst (cb_image_body s a) =
     s\<lparr>img_publishers' := img_publishers' s @ [image_topic (ros_namespace' s) a],
       camera_names' := c1, world_trans' := w1\<rparr>"
    using cb_image_body_state[of s a] by blast
  have "ros_namespace' (fst (cb_image_body s a)) = ros_namespace' s" by (simp add: b)
  then show ?case
    using Cons[of "fst (cb_image_body s a)"]
    by (simp add: split_def Let_def image_pubs_append cb_image_body_pubs)
qed

lemma airsim_image_cb_first:
  assumes "\<not> img_topic_published' s" and "msg \<noteq> []"
  shows "img_topic_published' (fst (airsim_image_cb s msg))"
    and "img_publishers' (fst (airsim_image_cb s msg)) =
           img_publishers' s @ map (image_topic (ros_namespace' s)) msg"
    and "advertised (snd (airsim_image_cb s msg)) = map (image_topic (ros_namespace' s)) msg"
    and "image_pubs (snd (airsim_image_cb s msg)) =
           map (\<lambda>a. (image_topic (ros_namespace' s) a, image_msg (ros_namespace' s) a)) msg"
    and "image_data' (fst (airsim_image_cb s msg)) = msg"
proof -
  obtain c w where l: "fst (cb_image_loop (s\<lparr>image_data' := msg\<rparr>) msg) =
     s\<lparr>image_data' := msg\<rparr>
      \<lparr>img_publishers' := img_publishers' (s\<lparr>image_data' := msg\<rparr>)
          @ map (image_topic (ros_namespace' (s\<lparr>image_data' := msg\<rparr>))) msg,
       camera_names' := c, world_trans' := w\<rparr>"
    using cb_image_loop_state[of "s\<lparr>image_data' := msg\<rparr>" msg] by blast
  show "img_topic_published' (fst (airsim_image_cb s msg))"
    using assms by (simp add: airsim_image_cb_def split_def Let_def)
  show "img_publishers' (fst (airsim_image_cb s msg)) =
           img_publishers' s @ map (image_topic (ros_namespace' s)) msg"
    using assms by (simp add: airsim_image_cb_def split_def Let_def l)
  show "image_data' (fst (airsim_image_cb s msg)) = msg"
    using assms by (simp add: airsim_image_cb_def split_def Let_def l)
  show "advertised (snd (airsim_image_cb s msg)) = map (image_topic (ros_namespace' s)) msg"
    using assms
    by (simp add: airsim_image_cb_def split_def Let_def advertised_append cb_image_loop_adv)
  show "image_pubs (snd (airsim_image_cb s msg)) =
           map (\<lambda>a. (image_topic (ros_namespace' s) a, image_msg (ros_namespace' s) a)) msg"
    using assms
    by (simp add: airsim_image_cb_def split_def Let_def image_pubs_append cb_image_loop_pubs)
qed

lemma step_lidar_state: "\<exists>w. fst (step_lidar s) = s\<lparr>world_trans' := w\<rparr>"
  using same_world by (cases "pub_lidar_data' s") (auto simp: step_lidar_def Let_def)

lemma step_autonomy_state: "\<exists>w. fst (step_autonomy s t dt) = s\<lparr>world_trans' := w\<rparr>"
proof -
  obtain w1 where w1: "fst (step_images s (img_topic_published' s)) = s\<lparr>world_trans' := w1\<rparr>"
    using step_images_state by blast
  obtain w2 where w2: "fst (step_lidar (s\<lparr>world_trans' := w1\<rparr>)) = s\<lparr>world_trans' := w1\<rparr>\<lparr>world_trans' := w2\<rparr>"
    using step_lidar_state by blast
  show ?thesis
    by (intro exI[of _ w2]) (simp add: step_autonomy_def split_def Let_def w1 w2)
qed

lemma step_publish_loop_no_adv: "advertised (step_publish_loop pubs tn fr a) = []"
  by (induction pubs) (simp_all add: Let_def)

lemma advertised_concat: "advertised (concat xs) = concat (map advertised xs)"
  by (induction xs) (simp_all add: advertised_append)

lemma step_image_body_no_adv: "advertised (step_image_body s a) = []"
  by (simp add: step_image_body_def Let_def advertised_append step_publish_loop_no_adv)

lemma step_autonomy_no_adv: "advertised (fst (snd (step_autonomy s t dt))) = []"
  by (simp add: step_autonomy_def split_def Let_def advertised_append step_images_def
      step_lidar_def advertised_concat step_image_body_no_adv)

lemma deliver_published:
  assumes "img_topic_published' s"
  shows "img_topic_published' (fst (deliver s i))"
    and "img_publishers' (fst (deliver s i)) = img_publishers' s"
    and "camera_names' (fst (deliver s i)) = camera_names' s"
    and "advertised (snd (deliver s i)) = []"
proof -
  have "img_topic_published' (fst (deliver s i)) \<and> img_publishers' (fst (deliver s i)) = img_publishers' s
    \<and> camera_names' (fst (deliver s i)) = camera_names' s \<and> advertised (snd (deliver s i)) = []"
  proof (cases i)
    case (LidarMsg l)
    then show ?thesis using assms by (simp add: airsim_lidar_cb_def)
  next
    case (ImagesMsg m)
    then show ?thesis using assms by (simp add: airsim_image_cb_published)
  next
    case (Tick t dt)
    obtain w where "fst (step_autonomy s t dt) = s\<lparr>world_trans' := w\<rparr>"
      using step_autonomy_state by blast
    then show ?thesis using assms Tick step_autonomy_no_adv[of s t dt]
      by (simp add: split_def Let_def)
  qed
  then show "img_topic_published' (fst (deliver s i))"
    and "img_publishers' (fst (deliver s i)) = img_publishers' s"
    and "camera_names' (fst (deliver s i)) = camera_names' s"
    and "advertised (snd (deliver s i)) = []" by simp_all
qed

lemma run_published:
  "img_topic_published' s \<Longrightarrow>
   img_topic_published' (fst (run s is)) \<and> img_publishers' (fst (run s is)) = img_publishers' s
   \<and> camera_names' (fst (run s is)) = camera_names' s \<and> advertised (snd (run s is)) = []"
proof (induction "is" arbitrary: s)
  case Nil
  then show ?case by simp
next
  case (Cons i "is")
  from Cons.IH[of "fst (deliver s i)"] deliver_published[OF Cons.prems, of i]
  show ?case by (simp add: split_def Let_def advertised_append)
qed

lemma run_append: "fst (run s (is @ js)) = fst (run (fst (run s is)) js)"
  by (induction "is" arbitrary: s) (simp_all add: split_def Let_def)


subsection \<open>What a tick publishes\<close>

lemma step_publish_loop_pubs:
  "image_pubs (step_publish_loop pubs tn fr a) =
     (if tn \<in> set pubs
      then [(tn, \<lparr>img_frame_id = fr,
                  encoding = (if pixels_as_float (camera_config a) then [] else ''rgb8''),
                  img_data = img a\<rparr>)]
      else [])"
  by (induction pubs) (auto simp: Let_def toImageMsg_def)

lemma step_image_body_pubs:
  "image_pubs (step_image_body s a) =
     (if image_topic (ros_namespace' s) a \<in> set (img_publishers' s)
      then [(image_topic (ros_namespace' s) a, image_msg (ros_namespace' s) a)]
      else [])"
  by (simp add: step_image_body_def Let_def image_pubs_append step_publish_loop_pubs
      image_topic_def image_msg_def)

lemma image_pubs_concat: "image_pubs (concat xs) = concat (map image_pubs xs)"
  by (induction xs) (simp_all add: image_pubs_append)

lemma image_pubs_step:
  "image_pubs (fst (snd (step_autonomy s t dt))) =
     (if pub_image_data' s \<and> img_topic_published' s
      then concat (map (\<lambda>a. if image_topic (ros_namespace' s) a \<in> set (img_publishers' s)
                             then [(image_topic (ros_namespace' s) a, image_msg (ros_namespace' s) a)]
                             else []) (image_data' s))
      else [])"
  by (simp add: step_autonomy_def split_def Let_def image_pubs_append step_images_def
      step_lidar_def image_pubs_concat comp_def step_image_body_pubs)

lemma step_publish_loop_no_tf: "broadcasts (step_publish_loop pubs tn fr a) = []"
  by (induction pubs) (simp_all add: Let_def)

lemma broadcasts_concat: "broadcasts (concat xs) = concat (map broadcasts xs)"
  by (induction xs) (simp_all add: broadcasts_append)

lemma step_image_body_no_tf: "broadcasts (step_image_body s a) = []"
  by (simp add: step_image_body_def Let_def broadcasts_append step_publish_loop_no_tf)

lemma step_laser_trans_world: "step_laser_trans (s\<lparr>world_trans' := w\<rparr>) = step_laser_trans s"
  by (simp add: step_laser_trans_def)

lemma lidar_world_trans_world: "lidar_world_trans (s\<lparr>world_trans' := w\<rparr>) = lidar_world_trans s"
  by (simp add: lidar_world_trans_def Let_def)

lemma broadcasts_step:
  "broadcasts (fst (snd (step_autonomy s t dt))) =
     [(if pub_image_data' s \<and> img_topic_published' s
       then snd (step_camera_loop s (camera_names' s)) else [])
      @ (if pub_lidar_data' s then [step_laser_trans s, lidar_world_trans s] else [])]"
proof -
  obtain w where w: "fst (step_images s (img_topic_published' s)) = s\<lparr>world_trans' := w\<rparr>"
    using step_images_state by blast
  have ev: "broadcasts (fst (snd (step_images s (img_topic_published' s)))) = []"
    by (simp add: step_images_def split_def Let_def broadcasts_concat step_image_body_no_tf)
  have tf: "snd (snd (step_images s (img_topic_published' s))) =
    (if pub_image_data' s \<and> img_topic_published' s
       then snd (step_camera_loop s (camera_names' s)) else [])"
    by (simp add: step_images_def split_def Let_def)
  have lid: "broadcasts (fst (snd (step_lidar (s\<lparr>world_trans' := w\<rparr>)))) = []"
    "snd (snd (step_lidar (s\<lparr>world_trans' := w\<rparr>))) =
       (if pub_lidar_data' s then [step_laser_trans s, lidar_world_trans s] else [])"
    by (simp_all add: step_lidar_def Let_def step_laser_trans_world lidar_world_trans_world)
  show ?thesis
    by (simp add: step_autonomy_def split_def Let_def broadcasts_append w ev tf lid)
qed

lemma ex_late_fields:
  "pub_image_data' ex_late" "img_topic_published' ex_late" "image_data' ex_late = [ex_image_rear]"
  "img_publishers' ex_late = [''/robot1/front/scene'']" "ros_namespace' ex_late = ''robot1''"
  "pub_lidar_data' ex_late"
  by (simp_all add: ex_late_def ex_buffered_def ex_object_def)

lemma ex_buffered_fields:
  "pub_image_data' ex_buffered" "img_topic_published' ex_buffered"
  "image_data' ex_buffered = [ex_image_front]"
  "img_publishers' ex_buffered = [''/robot1/front/scene'']" "ros_namespace' ex_buffered = ''robot1''"
  "pub_lidar_data' ex_buffered" "base_scan_pub' ex_buffered = ''robot1/base_scan''"
  "lidar_data' ex_buffered = ex_lidar []"
  by (simp_all add: ex_buffered_def ex_object_def)

lemma topic_front: "image_topic ''robot1'' ex_image_front = ''/robot1/front/scene''"
  and topic_rear: "image_topic ''robot1'' ex_image_rear = ''/robot1/rear/scene''"
  and msg_front: "image_msg ''robot1'' ex_image_front =
     \<lparr>img_frame_id = ''robot1/front/images'', encoding = ''rgb8'', img_data = [1, 2, 3]\<rparr>"
  by (simp_all add: image_topic_def image_msg_def ex_image_front_def ex_image_rear_def
      lower_front lower_rear lower_Scene)

lemma second_message: "fst (airsim_image_cb ex_buffered [ex_image_rear]) = ex_late"
  by (simp add: airsim_image_cb_published ex_buffered_fields ex_late_def)

lemma ex_object_from_init:
  "fst (init (\<lambda>key params default. key \<noteq> ''show_camera_images'') (\<lambda>key params default. default)
         False
         \<lparr>entity_id = 1, state_pos = \<lparr>vx = 0, vy = 0, vz = 0\<rparr>,
          state_quat = \<lparr>qw = 1, qx = 0, qy = 0, qz = 0\<rparr>\<rparr>
         ex_object Map.empty) = ex_object"
  by (simp add: init_def Let_def ex_object_def to_string_def char_of_def bit_0)

text \<open>
  A tick looks a recorded camera name up among the buffered images by the name as it was
  received, while the callback recorded it lower-cased: a camera whose name has a capital
  letter gets its transform from the callback and none from a tick.
\<close>

lemma step_camera_find_no_match:
  "list_all (\<lambda>a. cam_name (camera_config a) \<noteq> c) as \<Longrightarrow> step_camera_find s c as = (s, [])"
  by (induction as) simp_all

lemma capital_camera_name_no_tick_transform:
  "camera_names' (fst (cb_image_body ex_object
      (ex_image_front\<lparr>camera_config := \<lparr>cam_name = ''Front'', img_type_name = ''Scene'',
                                           pixels_as_float = False\<rparr>\<rparr>))) = [''front'']
   \<and> step_camera_find s ''front''
        [ex_image_front\<lparr>camera_config := \<lparr>cam_name = ''Front'', img_type_name = ''Scene'',
                                             pixels_as_float = False\<rparr>\<rparr>] = (s, [])"
  by (simp add: cb_image_body_def Let_def ex_object_def ex_image_front_def to_lower_copy_def
      to_lower_char_def char_of_def bit_0)

section \<open>The claims\<close>

text \<open>
  C1.  Every pose that comes from the simulator in NED is converted to ENU the same way,
  at each of the six places (vehicle and camera pose in the image callback, vehicle and
  camera pose in a tick, vehicle and lidar pose of the lidar sample): the position
  \<open>(x, y, z)\<close> becomes \<open>(y, x, - z)\<close>, and the orientation \<open>q\<close> becomes
  \<open>Rz(90) * Rx(-180) * q\<close>, the rotation about X applied first.  In components the
  orientation is \<open>sqrt 2 / 2\<close> times \<open>(x + y, - (w + z), z - w, x - y)\<close>, in the
  order w, x, y, z.
\<close>

theorem poses_converted_from_NED_to_ENU:
  "cb_vehicle_pose_ENU a = ned_to_enu (vehicle_pose_world_NED a)
   \<and> cb_camera_pose_world_ENU a = ned_to_enu (camera_pose_world_NED a)
   \<and> step_vehicle_pose_ENU a = ned_to_enu (vehicle_pose_world_NED a)
   \<and> step_camera_pose_world_ENU a = ned_to_enu (camera_pose_world_NED a)
   \<and> lidar_vehicle_pose_ENU l = ned_to_enu (lidar_vehicle_pose_world_NED l)
   \<and> lidar_pose_world_ENU l = ned_to_enu (lidar_pose_world_NED l)
   \<and> position (ned_to_enu p) =
       \<lparr>vx = vy (position p), vy = vx (position p), vz = - vz (position p)\<rparr>
   \<and> orientation (ned_to_enu p) =
       quat_mul (Rz_deg 90) (quat_mul (Rx_deg (-180)) (orientation p))
   \<and> orientation (ned_to_enu p) =
       \<lparr>qw = sqrt 2 / 2 * (qx (orientation p) + qy (orientation p)),
        qx = - (sqrt 2 / 2) * (qw (orientation p) + qz (orientation p)),
        qy = sqrt 2 / 2 * (qz (orientation p) - qw (orientation p)),
        qz = sqrt 2 / 2 * (qx (orientation p) - qy (orientation p))\<rparr>"
proof -
  have "position (ned_to_enu p) =
       \<lparr>vx = vy (position p), vy = vx (position p), vz = - vz (position p)\<rparr>"
    and "orientation (ned_to_enu p) =
       quat_mul (Rz_deg 90) (quat_mul (Rx_deg (-180)) (orientation p))"
    by (simp_all add: ned_to_enu_def)
  then show ?thesis
    using pose_ENU_sites ned_to_enu_orientation[of p] by simp
qed

theorem poses_converted_witness:
  "cb_vehicle_pose_ENU ex_image_front =
     \<lparr>position = \<lparr>vx = 2, vy = 1, vz = -3\<rparr>,
      orientation = \<lparr>qw = 0, qx = - (sqrt 2 / 2), qy = - (sqrt 2 / 2), qz = 0\<rparr>\<rparr>
   \<and> lidar_pose_world_ENU (ex_lidar []) =
     \<lparr>position = \<lparr>vx = 2, vy = 1, vz = -3\<rparr>,
      orientation = \<lparr>qw = 0, qx = - (sqrt 2 / 2), qy = - (sqrt 2 / 2), qz = 0\<rparr>\<rparr>"
  using poses_converted_from_NED_to_ENU [of ex_image_front "ex_lidar []" ex_pose]
  by (simp add: ex_image_front_def ex_lidar_def ned_to_enu_ex_pose)

text \<open>
  C2.  The camera transform computed in the image callback, when the topics are created,
  and the one computed in a tick are the same function of the vehicle pose and the camera
  pose: for equal NED poses the translation and the rotation are equal, whatever the
  namespace, the camera name and the rest of the image; so are those of the world
  transform taken from the image.  With the same namespace and name the whole transform
  message is the same.
\<close>

theorem camera_transform_same_in_callback_and_tick:
  "vehicle_pose_world_NED a = vehicle_pose_world_NED b \<Longrightarrow>
   camera_pose_world_NED a = camera_pose_world_NED b \<Longrightarrow>
     transform (cb_image_trans ns camera_name a) = transform (step_image_trans ns1 cam_name1 b)
     \<and> transform (cb_world_trans s a) = transform (step_world_trans s1 b)
     \<and> cb_image_trans ns camera_name a = step_image_trans ns camera_name b"
  by (simp add: cb_image_trans_def step_image_trans_def cb_world_trans_def step_world_trans_def
      cb_tf_world_vehicle_ENU_def step_tf_world_vehicle_ENU_def
      cb_tf_world_camera_ENU_def step_tf_world_camera_ENU_def
      cb_vehicle_pose_ENU_def step_vehicle_pose_ENU_def
      cb_camera_pose_world_ENU_def step_camera_pose_world_ENU_def Let_def)

theorem camera_transform_witness:
  "vehicle_pose_world_NED ex_image_front = vehicle_pose_world_NED ex_image_rear
   \<and> camera_pose_world_NED ex_image_front = camera_pose_world_NED ex_image_rear
   \<and> transform (cb_image_trans ''robot1'' ''front'' ex_image_front) =
       \<lparr>translation = \<lparr>vx = 0, vy = 0, vz = 0\<rparr>, rotation = \<lparr>qw = 1, qx = 0, qy = 0, qz = 0\<rparr>\<rparr>
   \<and> transform (step_image_trans ''robot1'' ''rear'' ex_image_rear) =
       \<lparr>translation = \<lparr>vx = 0, vy = 0, vz = 0\<rparr>, rotation = \<lparr>qw = 1, qx = 0, qy = 0, qz = 0\<rparr>\<rparr>"
proof -
  have v: "vehicle_pose_world_NED ex_image_front = vehicle_pose_world_NED ex_image_rear"
    and c: "camera_pose_world_NED ex_image_front = camera_pose_world_NED ex_image_rear"
    by (simp_all add: ex_image_front_def ex_image_rear_def)
  from camera_transform_same_in_callback_and_tick
         [OF v c, THEN conjunct1, of "''robot1''" "''front''" "''robot1''" "''rear''"]
       v c step_image_trans_ex
  show ?thesis by simp
qed

text \<open>
  C3.  A lidar message of fewer than 3 floats leaves the object as it was and emits
  nothing.  An image message with no image emits nothing either, but it is stored before
  its size is tested: the buffered images are replaced by the empty list, and the next
  tick publishes no image where it published the buffered one before.
\<close>

theorem empty_image_message_replaces_buffer:
  "image_data' ex_buffered = [ex_image_front]
   \<and> airsim_image_cb ex_buffered [] = (ex_buffered\<lparr>image_data' := []\<rparr>, [])
   \<and> image_data' (fst (airsim_image_cb ex_buffered [])) \<noteq> image_data' ex_buffered
   \<and> image_pubs (fst (snd (step_autonomy ex_buffered 0 1))) =
       [(''/robot1/front/scene'',
         \<lparr>img_frame_id = ''robot1/front/images'', encoding = ''rgb8'', img_data = [1, 2, 3]\<rparr>)]
   \<and> image_pubs (fst (snd (step_autonomy (fst (airsim_image_cb ex_buffered [])) 0 1))) = []
   \<and> airsim_lidar_cb ex_scan6 (ex_lidar [0, 0]) = (ex_scan6, [])"
  by (simp add: airsim_image_cb_empty image_pubs_step ex_buffered_fields topic_front msg_front
      airsim_lidar_cb_def ex_lidar_def)

text \<open>
  C4.  Publishers and camera names are created only by the image callback, only on a
  message that is not empty and only while the flag is false; that call sets the flag.
  With the flag set, or on an empty message, the callback only stores the message.  A
  tick and the lidar callback never change the publishers, the camera names or the flag
  and advertise nothing.  Once the flag is set it stays set through any run of messages
  and ticks, and the publishers and camera names stay as they are.
\<close>

theorem publishers_created_once:
  "(img_topic_published' s \<longrightarrow>
      fst (airsim_image_cb s msg) = s\<lparr>image_data' := msg\<rparr>
      \<and> advertised (snd (airsim_image_cb s msg)) = [])
   \<and> (msg = [] \<longrightarrow>
      fst (airsim_image_cb s msg) = s\<lparr>image_data' := msg\<rparr>
      \<and> advertised (snd (airsim_image_cb s msg)) = [])
   \<and> (\<not> img_topic_published' s \<and> msg \<noteq> [] \<longrightarrow>
      img_topic_published' (fst (airsim_image_cb s msg))
      \<and> img_publishers' (fst (airsim_image_cb s msg)) =
          img_publishers' s @ map (image_topic (ros_namespace' s)) msg
      \<and> advertised (snd (airsim_image_cb s msg)) = map (image_topic (ros_namespace' s)) msg)
   \<and> img_topic_published' (fst (step_autonomy s t dt)) = img_topic_published' s
   \<and> img_publishers' (fst (step_autonomy s t dt)) = img_publishers' s
   \<and> camera_names' (fst (step_autonomy s t dt)) = camera_names' s
   \<and> advertised (fst (snd (step_autonomy s t dt))) = []
   \<and> fst (airsim_lidar_cb s l) = s\<lparr>lidar_data' := lidar_data' (fst (airsim_lidar_cb s l))\<rparr>
   \<and> advertised (snd (airsim_lidar_cb s l)) = []
   \<and> (img_topic_published' s \<longrightarrow>
      img_topic_published' (fst (run s is))
      \<and> img_publishers' (fst (run s is)) = img_publishers' s
      \<and> camera_names' (fst (run s is)) = camera_names' s
      \<and> advertised (snd (run s is)) = [])
   \<and> (img_topic_published' (fst (run s is)) \<longrightarrow>
      img_topic_published' (fst (run s (is @ js)))
      \<and> img_publishers' (fst (run s (is @ js))) = img_publishers' (fst (run s is))
      \<and> camera_names' (fst (run s (is @ js))) = camera_names' (fst (run s is)))"
proof -
  obtain w where w: "fst (step_autonomy s t dt) = s\<lparr>world_trans' := w\<rparr>"
    using step_autonomy_state by blast
  have cb_pub: "img_topic_published' s \<longrightarrow>
      fst (airsim_image_cb s msg) = s\<lparr>image_data' := msg\<rparr>
      \<and> advertised (snd (airsim_image_cb s msg)) = []"
    by (simp add: airsim_image_cb_published)
  have cb_empty: "msg = [] \<longrightarrow>
      fst (airsim_image_cb s msg) = s\<lparr>image_data' := msg\<rparr>
      \<and> advertised (snd (airsim_image_cb s msg)) = []"
    by (simp add: airsim_image_cb_empty)
  have cb_first: "\<not> img_topic_published' s \<and> msg \<noteq> [] \<longrightarrow>
      img_topic_published' (fst (airsim_image_cb s msg))
      \<and> img_publishers' (fst (airsim_image_cb s msg)) =
          img_publishers' s @ map (image_topic (ros_namespace' s)) msg
      \<and> advertised (snd (airsim_image_cb s msg)) = map (image_topic (ros_namespace' s)) msg"
    using airsim_image_cb_first(1,2,3)[of s msg] by blast
  have tick: "img_topic_published' (fst (step_autonomy s t dt)) = img_topic_published' s
      \<and> img_publishers' (fst (step_autonomy s t dt)) = img_publishers' s
      \<and> camera_names' (fst (step_autonomy s t dt)) = camera_names' s
      \<and> advertised (fst (snd (step_autonomy s t dt))) = []"
    by (simp add: w step_autonomy_no_adv)
  have lidar: "fst (airsim_lidar_cb s l) = s\<lparr>lidar_data' := lidar_data' (fst (airsim_lidar_cb s l))\<rparr>
      \<and> advertised (snd (airsim_lidar_cb s l)) = []"
    by (simp add: airsim_lidar_cb_def)
  have later: "img_topic_published' s \<longrightarrow>
      img_topic_published' (fst (run s is))
      \<and> img_publishers' (fst (run s is)) = img_publishers' s
      \<and> camera_names' (fst (run s is)) = camera_names' s
      \<and> advertised (snd (run s is)) = []"
    using run_published[of s "is"] by blast
  have stays: "img_topic_published' (fst (run s is)) \<longrightarrow>
      img_topic_published' (fst (run s (is @ js)))
      \<and> img_publishers' (fst (run s (is @ js))) = img_publishers' (fst (run s is))
      \<and> camera_names' (fst (run s (is @ js))) = camera_names' (fst (run s is))"
    using run_published[of "fst (run s is)" js] by (simp add: run_append)
  from cb_pub cb_empty cb_first tick lidar later stays show ?thesis by blast
qed

theorem publishers_created_once_witness:
  "\<not> img_topic_published' ex_object
   \<and> img_topic_published' (fst (airsim_image_cb ex_object [ex_image_front]))
   \<and> img_publishers' (fst (airsim_image_cb ex_object [ex_image_front])) = [''/robot1/front/scene'']
   \<and> advertised (snd (airsim_image_cb ex_object [ex_image_front])) = [''/robot1/front/scene'']
   \<and> img_topic_published' ex_buffered
   \<and> fst (airsim_image_cb ex_buffered [ex_image_rear]) = ex_late
   \<and> advertised (snd (airsim_image_cb ex_buffered [ex_image_rear])) = []
   \<and> img_publishers' (fst (run ex_buffered [ImagesMsg [ex_image_rear], Tick 0 1])) =
       [''/robot1/front/scene'']
   \<and> camera_names' (fst (run ex_buffered [ImagesMsg [ex_image_rear], Tick 0 1])) = [''front'']
   \<and> advertised (snd (run ex_buffered [ImagesMsg [ex_image_rear], Tick 0 1])) = []"
proof -
  have topic: "image_topic ''robot1'' ex_image_front = ''/robot1/front/scene''"
    by (simp add: image_topic_def ex_image_front_def lower_front lower_Scene)
  have st: "\<not> img_topic_published' ex_object" "ros_namespace' ex_object = ''robot1''"
    "img_publishers' ex_object = []" "img_topic_published' ex_buffered"
    "img_publishers' ex_buffered = [''/robot1/front/scene'']"
    "camera_names' ex_buffered = [''front'']"
    by (simp_all add: ex_object_def ex_buffered_def)
  note a = publishers_created_once [of ex_object "[ex_image_front]" 0 1 "ex_lidar []" "[]" "[]"]
  note b = publishers_created_once [of ex_buffered "[ex_image_rear]" 0 1 "ex_lidar []"
      "[ImagesMsg [ex_image_rear], Tick 0 1]" "[]"]
  from a b show ?thesis
    by (simp add: st topic ex_late_def)
qed

text \<open>
  C5.  Initialization hands the broadcaster exactly one list of transforms, holding one
  transform: from frame \<open>world\<close> to \<open><ros_namespace>/base_link\<close>, its translation the
  position of the parent's truth state and its rotation the quaternion of that state.
  The namespace is the prefix followed by the parent's id, and the transform is kept as
  the object's world transform.
\<close>

theorem init_broadcasts_world_transform_once:
  "broadcasts (snd (init gb gs ri p s params)) =
     [[\<lparr>frame_id = ''world'',
        child_frame_id = ros_namespace' (fst (init gb gs ri p s params)) @ ''/base_link'',
        transform = \<lparr>translation = state_pos p, rotation = state_quat p\<rparr>\<rparr>]]
   \<and> ros_namespace' (fst (init gb gs ri p s params)) =
       gs ''ros_namespace_prefix'' params ''robot'' @ to_string (entity_id p)
   \<and> broadcasts (snd (init gb gs ri p s params)) = [[world_trans' (fst (init gb gs ri p s params))]]"
  by (simp add: init_def Let_def broadcasts_append)

text \<open>
  C6, as the code has it.  In a tick, when image publishing is enabled and the publishers
  have been created, each buffered image whose topic \<open>/<ros_namespace>/<camera name>/<image
  type name>\<close> (the two names lower-cased) is the topic of a created publisher is published
  once on that topic, in the order of the buffer, and a buffered image whose topic has no
  publisher is not published; otherwise no image is published.  When lidar publishing is
  enabled one point cloud message is published on the base_scan topic, and the recomputed
  laser and world transforms end the one list of transforms that is broadcast, after the
  camera transforms.
\<close>

theorem step_republishes_buffered_samples:
  "image_pubs (fst (snd (step_autonomy s t dt))) =
     (if pub_image_data' s \<and> img_topic_published' s
      then concat (map (\<lambda>a. if image_topic (ros_namespace' s) a \<in> set (img_publishers' s)
                             then [(image_topic (ros_namespace' s) a, image_msg (ros_namespace' s) a)]
                             else []) (image_data' s))
      else [])
   \<and> cloud_pubs (fst (snd (step_autonomy s t dt))) =
       (if pub_lidar_data' s then [(base_scan_pub' s, step_lidar_msg s)] else [])
   \<and> broadcasts (fst (snd (step_autonomy s t dt))) =
       [(if pub_image_data' s \<and> img_topic_published' s
         then snd (step_camera_loop s (camera_names' s)) else [])
        @ (if pub_lidar_data' s then [step_laser_trans s, lidar_world_trans s] else [])]"
  using image_pubs_step cloud_pubs_step broadcasts_step by blast

theorem step_republishes_buffered_samples_witness:
  "image_pubs (fst (snd (step_autonomy ex_buffered 0 1))) =
     [(''/robot1/front/scene'',
       \<lparr>img_frame_id = ''robot1/front/images'', encoding = ''rgb8'', img_data = [1, 2, 3]\<rparr>)]
   \<and> cloud_pubs (fst (snd (step_autonomy ex_buffered 0 1))) =
       [(''robot1/base_scan'',
         \<lparr>pc_frame_id = ''robot1/base_laser'', height = 0, width = 0,
          pc_fields = [], is_bigendian = False, point_step = 0, row_step = 0, data = [],
          is_dense = False\<rparr>)]
   \<and> length (broadcasts (fst (snd (step_autonomy ex_buffered 0 1)))) = 1"
  using step_republishes_buffered_samples [of ex_buffered 0 1]
  by (simp add: ex_buffered_fields topic_front msg_front step_lidar_msg_def ex_lidar_def
      PointCloud2_default_def)

text \<open>
  C6 as stated fails: after a first message from camera \<open>front\<close> and a second from camera
  \<open>rear\<close>, image publishing is enabled, the publishers have been created and an image is
  buffered, and the tick publishes no image.
\<close>

theorem buffered_image_without_publisher_not_published:
  "fst (run ex_object [ImagesMsg [ex_image_front], ImagesMsg [ex_image_rear]]) = ex_late
   \<and> pub_image_data' ex_late \<and> img_topic_published' ex_late
   \<and> image_data' ex_late = [ex_image_rear]
   \<and> img_publishers' ex_late = [''/robot1/front/scene'']
   \<and> image_pubs (fst (snd (step_autonomy ex_late 0 1))) = []"
proof -
  have "pub_image_data' ex_object" by (simp add: ex_object_def)
  then have "fst (run ex_object [ImagesMsg [ex_image_front], ImagesMsg [ex_image_rear]]) = ex_late"
    by (simp add: split_def Let_def first_message second_message ex_buffered_fields)
  moreover have "image_pubs (fst (snd (step_autonomy ex_late 0 1))) = []"
    by (simp add: image_pubs_step ex_late_fields topic_rear)
  ultimately show ?thesis by (simp add: ex_late_fields)
qed

text \<open>
  C7.  Every read and every write of the publishers-created flag happens with the mutex
  held: the events of the image callback, of a tick, of the lidar callback, of
  initialization and of any run of messages and ticks keep the lock discipline.  The
  accesses are exactly the read of a tick, the read of the callback on a message that is
  not empty, and the write that follows the creation of the publishers, each between a
  lock and an unlock.
\<close>

theorem flag_accessed_only_under_mutex:
  "guarded False (snd (airsim_image_cb s msg))
   \<and> guarded False (fst (snd (step_autonomy s t dt)))
   \<and> guarded False (snd (airsim_lidar_cb s l))
   \<and> guarded False (snd (init gb gs ri p s params))
   \<and> guarded False (snd (run s is))
   \<and> filter on_flag (fst (snd (step_autonomy s t dt))) =
       [Lock, ReadFlag (img_topic_published' s), Unlock]
   \<and> filter on_flag (snd (airsim_image_cb s msg)) =
       (if msg = [] then []
        else if img_topic_published' s then [Lock, ReadFlag True, Unlock]
        else [Lock, ReadFlag False, Unlock, Lock, WriteFlag True, Unlock])"
  using guarded_image_cb guarded_step guarded_init guarded_run flag_events_step
    flag_events_image_cb
  by (simp add: airsim_lidar_cb_def)

text \<open>
  C8.  With lidar publishing enabled a tick publishes one point cloud message, on the
  base_scan topic.  Its payload is filled only when the buffered cloud holds more than 3
  floats: then height is 1, width is the number of floats divided by 3 (as 32 bits), the
  fields are x, y, z of type FLOAT32 at offsets 0, 4, 8, point_step is 12, row_step is
  12 times the width (a 32-bit product), and the data are the bytes of the floats in
  order.  While the data fit a message (fewer than \<open>2 ^ 32\<close> bytes) width, row_step and the
  length of the data are the exact numbers.  With 3 floats or fewer the message is
  empty, and the callback does accept a cloud of exactly 3 floats.
\<close>

theorem lidar_message_payload:
  assumes "pub_lidar_data' s"
  shows "cloud_pubs (fst (snd (step_autonomy s t dt))) = [(base_scan_pub' s, step_lidar_msg s)]
    \<and> (3 < cloud_size s \<longrightarrow>
         step_lidar_msg s =
           \<lparr>pc_frame_id = ros_namespace' s @ ''/base_laser'',
            height = 1,
            width = word_of_nat (cloud_size s div 3),
            pc_fields = [\<lparr>pf_name = ''x'', pf_offset = 0, pf_datatype = FLOAT32, pf_count = 1\<rparr>,
                         \<lparr>pf_name = ''y'', pf_offset = 4, pf_datatype = FLOAT32, pf_count = 1\<rparr>,
                         \<lparr>pf_name = ''z'', pf_offset = 8, pf_datatype = FLOAT32, pf_count = 1\<rparr>],
            is_bigendian = False,
            point_step = 12,
            row_step = 12 * word_of_nat (cloud_size s div 3),
            data = concat (map float_bytes (point_cloud (lidar_data (lidar_data' s)))),
            is_dense = True\<rparr>)
    \<and> (3 < cloud_size s \<and> 4 * cloud_size s < 2 ^ 32 \<longrightarrow>
         unat (width (step_lidar_msg s)) = cloud_size s div 3
         \<and> unat (row_step (step_lidar_msg s)) = 12 * (cloud_size s div 3)
         \<and> length (data (step_lidar_msg s)) = 4 * cloud_size s)
    \<and> (cloud_size s \<le> 3 \<longrightarrow>
         step_lidar_msg s =
           \<lparr>pc_frame_id = ros_namespace' s @ ''/base_laser'', height = 0, width = 0,
            pc_fields = [], is_bigendian = False, point_step = 0, row_step = 0, data = [],
            is_dense = False\<rparr>)
    \<and> (length (point_cloud (lidar_data l)) = 3 \<longrightarrow>
         lidar_data' (fst (airsim_lidar_cb s l)) = l
         \<and> cloud_size (fst (airsim_lidar_cb s l)) = 3)"
proof -
  have pubs: "cloud_pubs (fst (snd (step_autonomy s t dt))) = [(base_scan_pub' s, step_lidar_msg s)]"
    using assms by (simp add: cloud_pubs_step)
  have filled: "3 < cloud_size s \<longrightarrow> step_lidar_msg s =
           \<lparr>pc_frame_id = ros_namespace' s @ ''/base_laser'',
            height = 1,
            width = word_of_nat (cloud_size s div 3),
            pc_fields = [\<lparr>pf_name = ''x'', pf_offset = 0, pf_datatype = FLOAT32, pf_count = 1\<rparr>,
                         \<lparr>pf_name = ''y'', pf_offset = 4, pf_datatype = FLOAT32, pf_count = 1\<rparr>,
                         \<lparr>pf_name = ''z'', pf_offset = 8, pf_datatype = FLOAT32, pf_count = 1\<rparr>],
            is_bigendian = False,
            point_step = 12,
            row_step = 12 * word_of_nat (cloud_size s div 3),
            data = concat (map float_bytes (point_cloud (lidar_data (lidar_data' s)))),
            is_dense = True\<rparr>"
    using step_lidar_msg_filled[of s] by (simp add: cloud_size_def)
  have exact: "3 < cloud_size s \<and> 4 * cloud_size s < 2 ^ 32 \<longrightarrow>
         unat (width (step_lidar_msg s)) = cloud_size s div 3
         \<and> unat (row_step (step_lidar_msg s)) = 12 * (cloud_size s div 3)
         \<and> length (data (step_lidar_msg s)) = 4 * cloud_size s"
  proof (intro impI, elim conjE)
    assume big: "3 < cloud_size s" and fits: "4 * cloud_size s < 2 ^ 32"
    from big filled have m: "step_lidar_msg s = \<lparr>pc_frame_id = ros_namespace' s @ ''/base_laser'',
            height = 1,
            width = word_of_nat (cloud_size s div 3),
            pc_fields = [\<lparr>pf_name = ''x'', pf_offset = 0, pf_datatype = FLOAT32, pf_count = 1\<rparr>,
                         \<lparr>pf_name = ''y'', pf_offset = 4, pf_datatype = FLOAT32, pf_count = 1\<rparr>,
                         \<lparr>pf_name = ''z'', pf_offset = 8, pf_datatype = FLOAT32, pf_count = 1\<rparr>],
            is_bigendian = False,
            point_step = 12,
            row_step = 12 * word_of_nat (cloud_size s div 3),
            data = concat (map float_bytes (point_cloud (lidar_data (lidar_data' s)))),
            is_dense = True\<rparr>" by blast
    show "unat (width (step_lidar_msg s)) = cloud_size s div 3
         \<and> unat (row_step (step_lidar_msg s)) = 12 * (cloud_size s div 3)
         \<and> length (data (step_lidar_msg s)) = 4 * cloud_size s"
      unfolding m using width_exact[OF fits] length_float_bytes
      by (simp add: cloud_size_def)
  qed
  have empty: "cloud_size s \<le> 3 \<longrightarrow> step_lidar_msg s =
           \<lparr>pc_frame_id = ros_namespace' s @ ''/base_laser'', height = 0, width = 0,
            pc_fields = [], is_bigendian = False, point_step = 0, row_step = 0, data = [],
            is_dense = False\<rparr>"
    using step_lidar_msg_empty[of s] by (simp add: cloud_size_def PointCloud2_default_def)
  have accepted: "length (point_cloud (lidar_data l)) = 3 \<longrightarrow>
         lidar_data' (fst (airsim_lidar_cb s l)) = l
         \<and> cloud_size (fst (airsim_lidar_cb s l)) = 3"
    by (simp add: airsim_lidar_cb_def cloud_size_def)
  from pubs filled exact empty accepted show ?thesis by blast
qed

theorem lidar_message_payload_witness:
  "pub_lidar_data' ex_scan6 \<and> cloud_size ex_scan6 = 6
   \<and> cloud_pubs (fst (snd (step_autonomy ex_scan6 0 1))) =
       [(''robot1/base_scan'', step_lidar_msg ex_scan6)]
   \<and> width (step_lidar_msg ex_scan6) = 2
   \<and> row_step (step_lidar_msg ex_scan6) = 24
   \<and> unat (row_step (step_lidar_msg ex_scan6)) = 24
   \<and> data (step_lidar_msg ex_scan6) =
       [0, 0, 0x80, 0x3F, 0, 0, 0, 0, 0, 0, 0, 0, 0, 0, 0, 0, 0, 0, 0x80, 0x3F, 0, 0, 0, 0]
   \<and> length (point_cloud (lidar_data ex_scan3)) = 3
   \<and> lidar_data' (fst (airsim_lidar_cb ex_scan6 ex_scan3)) = ex_scan3
   \<and> pub_lidar_data' (fst (airsim_lidar_cb ex_scan6 ex_scan3))
   \<and> cloud_pubs (fst (snd (step_autonomy (fst (airsim_lidar_cb ex_scan6 ex_scan3)) 0 1))) =
       [(''robot1/base_scan'',
         \<lparr>pc_frame_id = ''robot1/base_laser'', height = 0, width = 0,
          pc_fields = [], is_bigendian = False, point_step = 0, row_step = 0, data = [],
          is_dense = False\<rparr>)]"
proof -
  have p6: "pub_lidar_data' ex_scan6" by (simp add: ex_scan6_def ex_object_def)
  have n6: "cloud_size ex_scan6 = 6" by (simp add: cloud_size_def ex_scan6_def ex_lidar_def)
  have n3: "length (point_cloud (lidar_data ex_scan3)) = 3" by (simp add: ex_scan3_def ex_lidar_def)
  have p3: "pub_lidar_data' (fst (airsim_lidar_cb ex_scan6 ex_scan3))"
    by (simp add: airsim_lidar_cb_def ex_scan6_def ex_object_def)
  have ns: "base_scan_pub' (fst (airsim_lidar_cb ex_scan6 ex_scan3)) = ''robot1/base_scan''"
     "ros_namespace' (fst (airsim_lidar_cb ex_scan6 ex_scan3)) = ''robot1''"
     "base_scan_pub' ex_scan6 = ''robot1/base_scan''"
     "ros_namespace' ex_scan6 = ''robot1''"
     "point_cloud (lidar_data (lidar_data' ex_scan6)) = [0x3F800000, 0, 0, 0, 0x3F800000, 0]"
    by (simp_all add: airsim_lidar_cb_def ex_scan6_def ex_object_def ex_lidar_def)
  note a = lidar_message_payload [OF p6, of 0 1 ex_scan3]
  note b = lidar_message_payload [OF p3, of 0 1 ex_scan3]
  from a b p6 n6 n3 p3 show ?thesis
    by (simp add: ns float_bytes_def)
qed

text \<open>
  C9.  With image publishing and lidar publishing both disabled, a tick leaves the whole
  object as it was, publishes no image and no point cloud, and hands the broadcaster one
  empty list of transforms.
\<close>

theorem step_autonomy_idle_when_disabled:
  "\<not> pub_image_data' s \<Longrightarrow> \<not> pub_lidar_data' s \<Longrightarrow>
     step_autonomy s t dt =
       (s, [SpinOnce, Lock, ReadFlag (img_topic_published' s), Unlock, SendTransform []], True)
     \<and> image_pubs (fst (snd (step_autonomy s t dt))) = []
     \<and> cloud_pubs (fst (snd (step_autonomy s t dt))) = []
     \<and> broadcasts (fst (snd (step_autonomy s t dt))) = [[]]"
  by (simp add: step_autonomy_def step_images_def step_lidar_def)

theorem step_autonomy_idle_witness:
  "\<not> pub_image_data' ex_idle \<and> \<not> pub_lidar_data' ex_idle
   \<and> step_autonomy ex_idle 0 1 =
       (ex_idle, [SpinOnce, Lock, ReadFlag False, Unlock, SendTransform []], True)
   \<and> broadcasts (fst (snd (step_autonomy ex_idle 0 1))) = [[]]"
  using step_autonomy_idle_when_disabled [of ex_idle 0 1]
  by (simp add: ex_idle_def ex_object_def)

text \<open>
  C10.  For every state of the object and every \<open>t\<close> and \<open>dt\<close>, a tick ends and returns
  true.
\<close>

theorem step_autonomy_returns_true:
  "\<exists>s1 ev. step_autonomy s t dt = (s1, ev, True)"
  by (simp add: step_autonomy_def split_def Let_def)


end
